theory Spec2Isabelle
  imports Main "HOL-Library.Log_Nat" "HOL-Library.Sublist" "HOL-Library.Word"
begin

section \<open>PyFLP parse report: a shallow embedding of tools/flp_parse_report.py\<close>

text \<open>
  The tool parses an FLP project with the pyflp library, counts the events it finds
  and renders the counts as one static HTML document. Python values are modelled as
  follows: \<open>int\<close> is \<^typ>\<open>int\<close>, \<open>str\<close> is \<^typ>\<open>string\<close>, \<open>bytes\<close> is a list
  of 8-bit words, a finite \<open>float\<close> is the rational number it denotes, and an exception
  is the \<open>Inl\<close> branch of a sum.
\<close>

subsection \<open>Exceptions\<close>

datatype py_error =
    ModuleNotFoundError "string option"
  | SystemExit string
  | ZeroDivisionError
  | OverflowError
  | ParseError string
  | OSError string
  | UnicodeEncodeError

subsection \<open>Python numbers and their text\<close>

text \<open>\<open>str(n)\<close> and \<open>f"{n}"\<close> for an \<open>int\<close>: the decimal digits, with a minus sign.\<close>

definition digit :: "nat \<Rightarrow> char" where
  "digit d = ''0123456789'' ! (d mod 10)"

fun str_nat :: "nat \<Rightarrow> string" where
  "str_nat n = (if n < 10 then [digit n] else str_nat (n div 10) @ [digit (n mod 10)])"

declare str_nat.simps [simp del]

definition str_int :: "int \<Rightarrow> string" where
  "str_int i = (if i < 0 then ''-'' @ str_nat (nat (- i)) else str_nat (nat i))"

text \<open>
  IEEE 754 binary64, the format of a Python \<open>float\<close>. A finite double is the rational
  it denotes. \<open>expo x\<close> is the binary exponent of a positive \<open>x\<close>
  (\<open>2 powi expo x \<le> x < 2 powi (expo x + 1)\<close>), computed from the bit lengths of
  numerator and denominator. \<open>binary64 x\<close> rounds \<open>x\<close> to the nearest double, ties
  to the even significand: 53 significant bits, so doubles near \<open>x\<close> are
  \<open>quantum x\<close> apart, with the fixed spacing \<open>2 powi - 1074\<close> in the subnormal
  range. Magnitudes from \<open>2 powi 1024\<close> on have no finite double; the operations
  below say what Python does there.
\<close>

definition round_half_even :: "rat \<Rightarrow> int" where
  "round_half_even y =
     (let f = \<lfloor>y\<rfloor>; d = y - of_int f
      in if d < 1 / 2 then f
         else if 1 / 2 < d then f + 1
         else if even f then f else f + 1)"

definition expo :: "rat \<Rightarrow> int" where
  "expo x =
     (let (p, q) = quotient_of x;
          k = int (floorlog 2 (nat p)) - int (floorlog 2 (nat q))
      in if 2 powi k \<le> x then k else k - 1)"

definition qexp :: "rat \<Rightarrow> int" where
  "qexp x = max (expo \<bar>x\<bar> - 52) (- 1074)"

definition quantum :: "rat \<Rightarrow> rat" where
  "quantum x = 2 powi qexp x"

definition binary64 :: "rat \<Rightarrow> rat" where
  "binary64 x = (if x = 0 then 0 else of_int (round_half_even (x / quantum x)) * quantum x)"

text \<open>
  \<open>n / d\<close> on two \<open>int\<close>s is true division: the correctly rounded quotient,
  \<open>ZeroDivisionError\<close> for a zero divisor, \<open>OverflowError\<close> when the quotient is too
  large for a float.
\<close>

definition int_truediv :: "int \<Rightarrow> int \<Rightarrow> py_error + rat" where
  "int_truediv n d =
     (if d = 0 then Inl ZeroDivisionError
      else let r = binary64 (of_int n / of_int d)
           in if 2 ^ 1024 \<le> \<bar>r\<bar> then Inl OverflowError else Inr r)"

text \<open>
  Float multiplication and subtraction, for results below \<open>2 powi 1024\<close> in magnitude
  (Python gives an infinity beyond; the report only ever computes values between 0 and
  100, see \<open>pct_accuracy\<close>).
\<close>

definition float_mul :: "rat \<Rightarrow> rat \<Rightarrow> rat" where
  "float_mul a b = binary64 (a * b)"

definition float_sub :: "rat \<Rightarrow> rat \<Rightarrow> rat" where
  "float_sub a b = binary64 (a - b)"

text \<open>
  \<open>f"{x:.2f}"\<close>: the exact value of the double rounded to two decimals, ties to even,
  printed with at least one digit before the point.
\<close>

definition format_2f :: "rat \<Rightarrow> string" where
  "format_2f x =
     (let h = nat (round_half_even (\<bar>x\<bar> * 100))
      in (if x < 0 then ''-'' else []) @ str_nat (h div 100) @ ''.'' @
         [digit (h mod 100 div 10), digit (h mod 10)])"

text \<open>\<open>_pct\<close>: the guard on the denominator comes before the division.\<close>

definition pct :: "int \<Rightarrow> int \<Rightarrow> py_error + rat" where
  "pct numerator denominator =
     (if denominator = 0 then Inr 0
      else case int_truediv numerator denominator of
             Inl e \<Rightarrow> Inl e
           | Inr q \<Rightarrow> Inr (float_mul q 100))"

subsection \<open>Strings: \<open>str.replace\<close>, \<open>html.escape\<close>, \<open>str.join\<close>\<close>

text \<open>\<open>s.replace(c, rep)\<close> for a one-character pattern \<open>c\<close>.\<close>

definition replace_char :: "char \<Rightarrow> string \<Rightarrow> string \<Rightarrow> string" where
  "replace_char c rep s = concat (map (\<lambda>d. if d = c then rep else [d]) s)"

text \<open>\<open>html.escape(s)\<close> with \<open>quote=True\<close>: five replacements, the ampersand first.\<close>

definition html_escape :: "string \<Rightarrow> string" where
  \<open>html_escape s =
     (let s1 = replace_char CHR ''&'' ''&amp;'' s;
          s2 = replace_char CHR ''<'' ''&lt;'' s1;
          s3 = replace_char CHR ''>'' ''&gt;'' s2;
          s4 = replace_char CHR ''"'' ''&quot;'' s3
      in replace_char CHR 0x27 ''&#x27;'' s4)\<close>

text \<open>What the five replacements together do to one character (\<open>html_escape_chars\<close>).\<close>

definition escape_char :: "char \<Rightarrow> string" where
  \<open>escape_char c =
     (if c = CHR ''&'' then ''&amp;''
      else if c = CHR ''<'' then ''&lt;''
      else if c = CHR ''>'' then ''&gt;''
      else if c = CHR ''"'' then ''&quot;''
      else if c = CHR 0x27 then ''&#x27;''
      else [c])\<close>

fun join :: "string \<Rightarrow> string list \<Rightarrow> string" where
  "join sep [] = []"
| "join sep [x] = x"
| "join sep (x # y # ys) = x @ sep @ join sep (y # ys)"

text \<open>
  What escaping is for. The characters that open or close a tag or an attribute value
  are \<open>markup_chars\<close>. The ampersands of a text are escaped when each of them starts
  one of the five character references that \<open>html.escape\<close> writes. A text is
  \<open>escaped\<close> when, in addition, it holds no markup character.
\<close>

definition is_markup :: "char \<Rightarrow> bool" where
  \<open>is_markup c = (c = CHR ''<'' \<or> c = CHR ''>'' \<or> c = CHR ''"'' \<or> c = CHR 0x27)\<close>

definition markup_chars :: "string \<Rightarrow> string" where
  "markup_chars s = filter is_markup s"

definition starts_reference :: "string \<Rightarrow> bool" where
  "starts_reference s =
     list_ex (\<lambda>r. take (length r) s = r) [''amp;'', ''lt;'', ''gt;'', ''quot;'', ''#x27;'']"

fun ampersands_escaped :: "string \<Rightarrow> bool" where
  "ampersands_escaped [] = True"
| "ampersands_escaped (c # cs) =
     ((if c = CHR ''&'' then starts_reference cs else True) \<and> ampersands_escaped cs)"

fun escaped :: "string \<Rightarrow> bool" where
  "escaped [] = True"
| "escaped (c # cs) =
     ((if c = CHR ''&'' then starts_reference cs else \<not> is_markup c) \<and> escaped cs)"

subsection \<open>\<open>collections.Counter\<close>\<close>

text \<open>
  A \<open>Counter\<close> is a dict, and a dict keeps its keys in the order of their first
  insertion: an association list from keys to counts. \<open>Counter(iterable)\<close> adds one
  for every element, in order.
\<close>

type_synonym 'k counter = "('k \<times> int) list"

fun counter_add :: "'k \<Rightarrow> 'k counter \<Rightarrow> 'k counter" where
  "counter_add k [] = [(k, 1)]"
| "counter_add k ((k', c) # rest) =
     (if k = k' then (k', c + 1) # rest else (k', c) # counter_add k rest)"

definition Counter :: "'k list \<Rightarrow> 'k counter" where
  "Counter ks = foldl (\<lambda>c k. counter_add k c) [] ks"

text \<open>
  \<open>sorted(items, key=itemgetter(1), reverse=True)\<close>: a stable sort, so items of equal
  count keep their order. \<open>heapq.nlargest(n, items, key)\<close> is documented as that list
  cut to its first \<open>n\<close> items, and returns the empty list for \<open>n \<le> 0\<close>.
  \<open>most_common(n)\<close> is \<open>nlargest\<close> on the items; \<open>most_common()\<close> is the whole
  sorted list.
\<close>

definition sorted_reverse :: "'k counter \<Rightarrow> 'k counter" where
  "sorted_reverse items = sort_key (\<lambda>item. - snd item) items"

definition nlargest :: "int \<Rightarrow> 'k counter \<Rightarrow> 'k counter" where
  "nlargest n items = take (nat n) (sorted_reverse items)"

definition most_common :: "int \<Rightarrow> 'k counter \<Rightarrow> 'k counter" where
  "most_common n c = nlargest n c"

definition most_common_all :: "'k counter \<Rightarrow> 'k counter" where
  "most_common_all c = sorted_reverse c"

text \<open>
  The ranking rule of the specification, to compare \<open>most_common\<close> with: \<open>ks\<close> is
  the sequence of keys that was counted, \<open>first_seen ks k\<close> the position at which
  \<open>k\<close> first occurs in it, \<open>first_keys ks\<close> the distinct keys in the order of their
  first occurrence. A table is ranked when a row of larger count comes before
  a row of smaller count, and of two rows of equal count the one whose key was seen first
  comes first.
\<close>

definition first_seen :: "'k list \<Rightarrow> 'k \<Rightarrow> nat" where
  "first_seen ks k = length (takeWhile (\<lambda>x. x \<noteq> k) ks)"

definition first_keys :: "'k list \<Rightarrow> 'k list" where
  "first_keys ks = rev (remdups (rev ks))"

definition ranked :: "'k list \<Rightarrow> 'k counter \<Rightarrow> bool" where
  "ranked ks table =
     sorted_wrt (\<lambda>a b. snd b < snd a \<or>
                       (snd a = snd b \<and> first_seen ks (fst a) < first_seen ks (fst b))) table"

subsection \<open>Events, as the pyflp parser hands them over\<close>

text \<open>
  A sub-event of a VST plugin event is a mapping with an \<open>"id"\<close> and \<open>"data"\<close>. The id
  is a plain \<open>int\<close> when pyflp has no name for it, a member of an enum (with a name
  and a value) otherwise; \<open>type(sub_event["id"]) is int\<close> holds for the first only.
\<close>

datatype sub_id = IntId int | EnumId string int

fun type_is_int :: "sub_id \<Rightarrow> bool" where
  "type_is_int (IntId i) = True"
| "type_is_int (EnumId name v) = False"

fun int_value :: "sub_id \<Rightarrow> int" where
  "int_value (IntId i) = i"
| "int_value (EnumId name v) = v"

record sub_event =
  sid :: sub_id
  sdata :: "8 word list"

text \<open>
  What the report reads from an event: \<open>int(event.id)\<close>, the \<open>name\<close> attribute of
  \<open>event.id\<close> when it has one, \<open>type(event).__name__\<close>, and the class of the event as
  far as the two \<open>isinstance\<close> tests tell it, with \<open>event["events"]\<close> for a VST plugin
  event. The two classes tested are unrelated in pyflp, so no event is an instance of
  both.
\<close>

datatype event_class = UnknownDataEvent | VSTPluginEvent "sub_event list" | KnownEvent

record event =
  id_value :: int
  id_name :: "string option"
  class_name :: string
  cls :: event_class

definition is_unknown :: "event \<Rightarrow> bool" where
  "is_unknown e = (cls e = UnknownDataEvent)"

definition event_id_name :: "event \<Rightarrow> string" where
  "event_id_name e = (case id_name e of None \<Rightarrow> str_int (id_value e) | Some name \<Rightarrow> name)"

subsection \<open>\<open>build_report\<close>: the aggregates\<close>

text \<open>Each local variable of \<open>build_report\<close> is a function of the event list.\<close>

definition total_events :: "event list \<Rightarrow> int" where
  "total_events events = int (length events)"

definition unknown_top_level :: "event list \<Rightarrow> event list" where
  "unknown_top_level events = filter is_unknown events"

definition parsed_events :: "event list \<Rightarrow> int" where
  "parsed_events events = total_events events - int (length (unknown_top_level events))"

definition event_type_counts :: "event list \<Rightarrow> string counter" where
  "event_type_counts events = Counter (map class_name events)"

definition top_level_id_counts :: "event list \<Rightarrow> (int \<times> string \<times> string) counter" where
  "top_level_id_counts events =
     Counter (map (\<lambda>e. (id_value e, event_id_name e, class_name e)) events)"

definition unknown_top_level_id_counts :: "event list \<Rightarrow> int counter" where
  "unknown_top_level_id_counts events = Counter (map id_value (unknown_top_level events))"

text \<open>The two nested \<open>for\<close> loops that fill \<open>unknown_vst_subevents\<close>.\<close>

fun vst_sub_loop :: "sub_event list \<Rightarrow> (int \<times> int) list \<Rightarrow> (int \<times> int) list" where
  "vst_sub_loop [] acc = acc"
| "vst_sub_loop (s # rest) acc =
     vst_sub_loop rest
       (if type_is_int (sid s) then acc @ [(int_value (sid s), int (length (sdata s)))]
        else acc)"

fun vst_event_loop :: "event list \<Rightarrow> (int \<times> int) list \<Rightarrow> (int \<times> int) list" where
  "vst_event_loop [] acc = acc"
| "vst_event_loop (e # rest) acc =
     vst_event_loop rest
       (case cls e of
          VSTPluginEvent subs \<Rightarrow> vst_sub_loop subs acc
        | UnknownDataEvent \<Rightarrow> acc
        | KnownEvent \<Rightarrow> acc)"

text \<open>
  To state what the loops compute: all sub-events of the VST plugin events, in the order
  in which the loops visit them.
\<close>

definition nested_entries :: "event list \<Rightarrow> sub_event list" where
  "nested_entries events =
     concat (map (\<lambda>e. case cls e of
                          VSTPluginEvent subs \<Rightarrow> subs
                        | UnknownDataEvent \<Rightarrow> []
                        | KnownEvent \<Rightarrow> []) events)"

definition unknown_vst_subevents :: "event list \<Rightarrow> (int \<times> int) list" where
  "unknown_vst_subevents events = vst_event_loop events []"

definition unknown_vst_counts :: "event list \<Rightarrow> int counter" where
  "unknown_vst_counts events = Counter (map fst (unknown_vst_subevents events))"

definition parsed_pct :: "event list \<Rightarrow> py_error + rat" where
  "parsed_pct events = pct (parsed_events events) (total_events events)"

definition unknown_pct :: "event list \<Rightarrow> py_error + rat" where
  "unknown_pct events =
     (case parsed_pct events of
        Inl e \<Rightarrow> Inl e
      | Inr p \<Rightarrow> Inr (if total_events events \<noteq> 0 then float_sub 100 p else 0))"

subsection \<open>\<open>build_report\<close>: the table rows\<close>

text \<open>
  Each table body is the rows of \<open>most_common(top_n)\<close> joined by newlines, and a
  placeholder row when that string is empty.
\<close>

definition type_row :: "string \<times> int \<Rightarrow> string" where
  "type_row = (\<lambda>(type_name, count).
     ''<tr>'' @
     ''<td>'' @ html_escape type_name @ ''</td>'' @
     ''<td>'' @ str_int count @ ''</td>'' @
     ''</tr>'')"

definition render_type_rows :: "string counter \<Rightarrow> string" where
  "render_type_rows table =
     (let type_rows = join ''\<newline>'' (map type_row table)
      in if type_rows = [] then ''<tr><td colspan='2'>No events</td></tr>'' else type_rows)"

definition type_rows :: "event list \<Rightarrow> int \<Rightarrow> string" where
  "type_rows events top_n = render_type_rows (most_common top_n (event_type_counts events))"

definition id_row :: "(int \<times> string \<times> string) \<times> int \<Rightarrow> string" where
  "id_row = (\<lambda>((event_id, event_name, event_type), count).
     ''<tr>'' @
     ''<td>'' @ str_int event_id @ ''</td>'' @
     ''<td>'' @ html_escape event_name @ ''</td>'' @
     ''<td>'' @ html_escape event_type @ ''</td>'' @
     ''<td>'' @ str_int count @ ''</td>'' @
     ''</tr>'')"

definition render_id_rows :: "(int \<times> string \<times> string) counter \<Rightarrow> string" where
  "render_id_rows table =
     (let id_rows = join ''\<newline>'' (map id_row table)
      in if id_rows = [] then ''<tr><td colspan='4'>No events</td></tr>'' else id_rows)"

definition id_rows :: "event list \<Rightarrow> int \<Rightarrow> string" where
  "id_rows events top_n = render_id_rows (most_common top_n (top_level_id_counts events))"

definition unknown_top_level_row :: "int \<times> int \<Rightarrow> string" where
  "unknown_top_level_row = (\<lambda>(event_id, count).
     ''<tr>'' @
     ''<td>'' @ str_int event_id @ ''</td>'' @
     ''<td>'' @ str_int count @ ''</td>'' @
     ''</tr>'')"

definition render_unknown_top_level_rows :: "int counter \<Rightarrow> string" where
  "render_unknown_top_level_rows table =
     (let unknown_top_level_rows = join ''\<newline>'' (map unknown_top_level_row table)
      in if unknown_top_level_rows = [] then ''<tr><td colspan='2'>None</td></tr>''
         else unknown_top_level_rows)"

definition unknown_top_level_rows :: "event list \<Rightarrow> int \<Rightarrow> string" where
  "unknown_top_level_rows events top_n =
     render_unknown_top_level_rows (most_common top_n (unknown_top_level_id_counts events))"

definition unknown_vst_row :: "int \<times> int \<Rightarrow> string" where
  "unknown_vst_row = (\<lambda>(sub_id, count).
     ''<tr>'' @
     ''<td>'' @ str_int sub_id @ ''</td>'' @
     ''<td>'' @ str_int count @ ''</td>'' @
     ''</tr>'')"

definition render_unknown_vst_rows :: "int counter \<Rightarrow> string" where
  "render_unknown_vst_rows table =
     (let unknown_vst_rows = join ''\<newline>'' (map unknown_vst_row table)
      in if unknown_vst_rows = [] then ''<tr><td colspan='2'>None</td></tr>''
         else unknown_vst_rows)"

definition unknown_vst_rows :: "event list \<Rightarrow> int \<Rightarrow> string" where
  "unknown_vst_rows events top_n =
     render_unknown_vst_rows (most_common top_n (unknown_vst_counts events))"

subsection \<open>\<open>build_report\<close>: the document\<close>

text \<open>
  The f-string that \<open>build_report\<close> returns, as a function of the values it
  interpolates: the resolved path, the counts, the two percentages, the two lists whose
  emptiness picks a style, \<open>top_n\<close> and the four table bodies.
\<close>

definition report_style :: string where
  \<open>report_style =
     ''* { box-sizing: border-box; }\<newline>'' @
     ''body {\<newline>'' @
     ''  margin: 24px;\<newline>'' @
     ''  font-family: "SF Pro Text", "Segoe UI", sans-serif;\<newline>'' @
     ''  color: #1f2937;\<newline>'' @
     ''  background: linear-gradient(180deg, #f7fafc, #eef2f7);\<newline>'' @
     ''}\<newline>'' @
     ''h1, h2 { margin-top: 0; }\<newline>'' @
     ''.grid {\<newline>'' @
     ''  display: grid;\<newline>'' @
     ''  grid-template-columns: repeat(auto-fit, minmax(220px, 1fr));\<newline>'' @
     ''  gap: 12px;\<newline>'' @
     ''  margin-bottom: 20px;\<newline>'' @
     ''}\<newline>'' @
     ''.card {\<newline>'' @
     ''  background: #ffffff;\<newline>'' @
     ''  border: 1px solid #dbe3ee;\<newline>'' @
     ''  border-radius: 12px;\<newline>'' @
     ''  padding: 14px;\<newline>'' @
     ''  box-shadow: 0 2px 6px rgba(0, 0, 0, 0.05);\<newline>'' @
     ''}\<newline>'' @
     ''.metric { font-size: 28px; font-weight: 700; margin-top: 8px; }\<newline>'' @
     ''.ok { color: #127d3e; }\<newline>'' @
     ''.warn { color: #b54708; }\<newline>'' @
     ''.bad { color: #b42318; }\<newline>'' @
     ''.bar {\<newline>'' @
     ''  width: 100%;\<newline>'' @
     ''  height: 16px;\<newline>'' @
     ''  border-radius: 999px;\<newline>'' @
     ''  overflow: hidden;\<newline>'' @
     ''  background: #e5e7eb;\<newline>'' @
     ''  border: 1px solid #d1d5db;\<newline>'' @
     ''}\<newline>'' @
     ''.bar > div {\<newline>'' @
     ''  height: 100%;\<newline>'' @
     ''  background: linear-gradient(90deg, #16a34a, #4ade80);\<newline>'' @
     ''}\<newline>'' @
     ''table {\<newline>'' @
     ''  width: 100%;\<newline>'' @
     ''  border-collapse: collapse;\<newline>'' @
     ''  background: #fff;\<newline>'' @
     ''  border: 1px solid #dbe3ee;\<newline>'' @
     ''  border-radius: 10px;\<newline>'' @
     ''  overflow: hidden;\<newline>'' @
     ''}\<newline>'' @
     ''th, td { text-align: left; padding: 10px; border-bottom: 1px solid #eef2f7; }\<newline>'' @
     ''th { background: #f8fafc; font-weight: 600; }\<newline>'' @
     ''section { margin-bottom: 20px; }\<newline>''\<close>

definition report_template ::
  "string \<Rightarrow> int \<Rightarrow> int \<Rightarrow> rat \<Rightarrow> event list \<Rightarrow> rat \<Rightarrow> (int \<times> int) list \<Rightarrow> int \<Rightarrow>
   string \<Rightarrow> string \<Rightarrow> string \<Rightarrow> string \<Rightarrow> string" where
  \<open>report_template resolved_path total_events' parsed_events' parsed_pct'
       unknown_top_level' unknown_pct' unknown_vst_subevents' top_n
       type_rows' id_rows' unknown_top_level_rows' unknown_vst_rows' =
     ''<!doctype html>\<newline>'' @
     ''<html lang="en">\<newline>'' @
     ''<head>\<newline>'' @
     ''<meta charset="utf-8">\<newline>'' @
     ''<meta name="viewport" content="width=device-width, initial-scale=1">\<newline>'' @
     ''<title>PyFLP Parse Report</title>\<newline>'' @
     ''<style>\<newline>'' @
     report_style @
     ''</style>\<newline>'' @
     ''</head>\<newline>'' @
     ''<body>\<newline>'' @
     ''<h1>PyFLP Parse Coverage Report</h1>\<newline>'' @
     ''<p><strong>File:</strong> '' @ html_escape resolved_path @ ''</p>\<newline>'' @
     ''\<newline>'' @
     ''<div class="grid">\<newline>'' @
     ''  <div class="card">\<newline>'' @
     ''    <div>Total events</div>\<newline>'' @
     ''    <div class="metric">'' @ str_int total_events' @ ''</div>\<newline>'' @
     ''  </div>\<newline>'' @
     ''  <div class="card">\<newline>'' @
     ''    <div>Parsed events</div>\<newline>'' @
     ''    <div class="metric ok">'' @ str_int parsed_events' @ '' ('' @ format_2f parsed_pct' @
       ''%)</div>\<newline>'' @
     ''  </div>\<newline>'' @
     ''  <div class="card">\<newline>'' @
     ''    <div>Unknown top-level events</div>\<newline>'' @
     ''    <div class="metric '' @ (if unknown_top_level' \<noteq> [] then ''bad'' else ''ok'') @ ''">'' @
       str_int (int (length unknown_top_level')) @ '' ('' @ format_2f unknown_pct' @
       ''%)</div>\<newline>'' @
     ''  </div>\<newline>'' @
     ''  <div class="card">\<newline>'' @
     ''    <div>Unknown VST sub-events</div>\<newline>'' @
     ''    <div class="metric '' @ (if unknown_vst_subevents' \<noteq> [] then ''warn'' else ''ok'') @
       ''">'' @ str_int (int (length unknown_vst_subevents')) @ ''</div>\<newline>'' @
     ''  </div>\<newline>'' @
     ''</div>\<newline>'' @
     ''\<newline>'' @
     ''<section class="card">\<newline>'' @
     ''  <h2>Top-level Parse Coverage</h2>\<newline>'' @
     ''  <div class="bar"><div style="width: '' @ format_2f parsed_pct' @ ''%"></div></div>\<newline>'' @
     ''  <p>'' @ str_int parsed_events' @ '' of '' @ str_int total_events' @
       '' top-level events parsed into known event types.</p>\<newline>'' @
     ''</section>\<newline>'' @
     ''\<newline>'' @
     ''<section>\<newline>'' @
     ''  <h2>Top Event Types (Top '' @ str_int top_n @ '')</h2>\<newline>'' @
     ''  <table>\<newline>'' @
     ''    <thead><tr><th>Event Type</th><th>Count</th></tr></thead>\<newline>'' @
     ''    <tbody>'' @ type_rows' @ ''</tbody>\<newline>'' @
     ''  </table>\<newline>'' @
     ''</section>\<newline>'' @
     ''\<newline>'' @
     ''<section>\<newline>'' @
     ''  <h2>Top Event IDs (Top '' @ str_int top_n @ '')</h2>\<newline>'' @
     ''  <table>\<newline>'' @
     ''    <thead><tr><th>ID</th><th>Name</th><th>Parsed As</th><th>Count</th></tr></thead>\<newline>'' @
     ''    <tbody>'' @ id_rows' @ ''</tbody>\<newline>'' @
     ''  </table>\<newline>'' @
     ''</section>\<newline>'' @
     ''\<newline>'' @
     ''<section>\<newline>'' @
     ''  <h2>Unknown Top-level Event IDs (Top '' @ str_int top_n @ '')</h2>\<newline>'' @
     ''  <table>\<newline>'' @
     ''    <thead><tr><th>ID</th><th>Count</th></tr></thead>\<newline>'' @
     ''    <tbody>'' @ unknown_top_level_rows' @ ''</tbody>\<newline>'' @
     ''  </table>\<newline>'' @
     ''</section>\<newline>'' @
     ''\<newline>'' @
     ''<section>\<newline>'' @
     ''  <h2>Unknown VST Sub-event IDs (Top '' @ str_int top_n @ '')</h2>\<newline>'' @
     ''  <table>\<newline>'' @
     ''    <thead><tr><th>Sub-event ID</th><th>Count</th></tr></thead>\<newline>'' @
     ''    <tbody>'' @ unknown_vst_rows' @ ''</tbody>\<newline>'' @
     ''  </table>\<newline>'' @
     ''</section>\<newline>'' @
     ''</body>\<newline>'' @
     ''</html>\<newline>''\<close>


text \<open>Everything \<open>build_report\<close> does once the events are at hand.\<close>

definition report_of_events :: "string \<Rightarrow> event list \<Rightarrow> int \<Rightarrow> py_error + string" where
  "report_of_events resolved_path events top_n =
     (case parsed_pct events of
        Inl e \<Rightarrow> Inl e
      | Inr ppct \<Rightarrow>
          (case unknown_pct events of
             Inl e \<Rightarrow> Inl e
           | Inr upct \<Rightarrow>
               Inr (report_template resolved_path (total_events events) (parsed_events events)
                      ppct (unknown_top_level events) upct (unknown_vst_subevents events) top_n
                      (type_rows events top_n) (id_rows events top_n)
                      (unknown_top_level_rows events top_n) (unknown_vst_rows events top_n))))"

subsection \<open>The parser library and the file system\<close>

text \<open>
  What the program takes from outside: whether the three pyflp imports succeed under a
  given \<open>sys.path\<close> (\<open>None\<close>) or which exception they raise, what \<open>pyflp.parse\<close>
  and \<open>list(project.events)\<close> give for a path, the resolved form of a path, the
  directory that \<open>_import_pyflp\<close> adds to \<open>sys.path\<close>, and how writing a text to a
  path ends.

  \<open>Path.write_text\<close> opens the file for writing, which creates or empties it, and
  then encodes and writes the text. So it ends in one of three ways: the text is
  written; opening fails with an exception and the file is as before; or the file has
  been opened and encoding or writing fails with an exception, and the file is left
  with whatever had reached it (nothing, when the text cannot be encoded).
\<close>

datatype write_result =
    Written
  | OpenFailed py_error
  | WriteFailed py_error string

record env =
  import_result :: "string list \<Rightarrow> py_error option"
  parse_events :: "string \<Rightarrow> py_error + event list"
  resolve :: "string \<Rightarrow> string"
  repo_root :: string
  write_text :: "string \<Rightarrow> string \<Rightarrow> write_result"

definition import_error_message :: "string option \<Rightarrow> string" where
  "import_error_message name =
     (let missing = (case name of None \<Rightarrow> ''dependency''
                     | Some n \<Rightarrow> if n = [] then ''dependency'' else n)
      in ''Could not import pyflp runtime dependency '' @
         ''('' @ missing @ '').\<newline>'' @
         ''Install project dependencies and rerun, for example:\<newline>'' @
         ''  python3.10 -m venv .venv310\<newline>'' @
         ''  .venv310/bin/pip install -e '.[dev]'\<newline>'' @
         ''  .venv310/bin/python tools/flp_parse_report.py /path/to/file.flp '' @
         ''-o parse-report.html'')"

text \<open>
  \<open>_import_pyflp\<close> returns the new \<open>sys.path\<close> and either the imported modules
  (\<open>Inr ()\<close>) or the exception. Only a \<open>ModuleNotFoundError\<close> is caught.
\<close>

definition import_pyflp :: "env \<Rightarrow> string list \<Rightarrow> string list \<times> (py_error + unit)" where
  "import_pyflp env sys_path =
     (case import_result env sys_path of
        None \<Rightarrow> (sys_path, Inr ())
      | Some (ModuleNotFoundError name) \<Rightarrow>
          (let sys_path' = (if repo_root env \<notin> set sys_path then repo_root env # sys_path
                            else sys_path)
           in case import_result env sys_path' of
                None \<Rightarrow> (sys_path', Inr ())
              | Some (ModuleNotFoundError name') \<Rightarrow>
                  (sys_path', Inl (SystemExit (import_error_message name')))
              | Some e \<Rightarrow> (sys_path', Inl e))
      | Some e \<Rightarrow> (sys_path, Inl e))"

definition build_report ::
  "env \<Rightarrow> string list \<Rightarrow> string \<Rightarrow> int \<Rightarrow> string list \<times> (py_error + string)" where
  "build_report env sys_path flp_path top_n =
     (case import_pyflp env sys_path of
        (sys_path', Inl e) \<Rightarrow> (sys_path', Inl e)
      | (sys_path', Inr modules) \<Rightarrow>
          (case parse_events env flp_path of
             Inl e \<Rightarrow> (sys_path', Inl e)
           | Inr events \<Rightarrow> (sys_path', report_of_events (resolve env flp_path) events top_n)))"

subsection \<open>\<open>main\<close>\<close>

text \<open>
  The parsed command line, and the part of the world the program changes: \<open>sys.path\<close>,
  the files, and the lines printed. \<open>main\<close> writes the output file only after
  \<open>build_report\<close> has returned; the final \<open>print\<close> is taken to succeed.
\<close>

record args =
  arg_flp_file :: string
  arg_output :: string
  arg_top :: int

record world =
  sys_path :: "string list"
  files :: "string \<rightharpoonup> string"
  stdout :: "string list"

definition main :: "env \<Rightarrow> args \<Rightarrow> world \<Rightarrow> world \<times> (py_error + int)" where
  "main env a w =
     (case build_report env (sys_path w) (arg_flp_file a) (arg_top a) of
        (sys_path', Inl e) \<Rightarrow> (w\<lparr>sys_path := sys_path'\<rparr>, Inl e)
      | (sys_path', Inr report_html) \<Rightarrow>
          (case write_text env (arg_output a) report_html of
             OpenFailed e \<Rightarrow> (w\<lparr>sys_path := sys_path'\<rparr>, Inl e)
           | WriteFailed e left \<Rightarrow>
               (w\<lparr>sys_path := sys_path', files := (files w)(arg_output a \<mapsto> left)\<rparr>, Inl e)
           | Written \<Rightarrow>
               (w\<lparr>sys_path := sys_path',
                  files := (files w)(arg_output a \<mapsto> report_html),
                  stdout := stdout w @ [''Report written to: '' @ resolve env (arg_output a)]\<rparr>,
                Inr 0)))"

text \<open>
  \<open>raise SystemExit(main())\<close>: the exit status of the process. The value \<open>main\<close>
  returns is the status; a \<open>SystemExit\<close> carrying a message, and any other exception
  that nothing catches, end the process with status 1.
\<close>

definition exit_status :: "py_error + int \<Rightarrow> int" where
  "exit_status r = (case r of Inr code \<Rightarrow> code | Inl e \<Rightarrow> 1)"

subsection \<open>Sample events\<close>

text \<open>
  Events for the concrete instances below: one that pyflp knows, one it does not, a
  VST plugin event with four sub-events, three of them with a plain \<open>int\<close> id, and
  one whose names hold markup characters.
\<close>

definition known_event :: event where
  "known_event =
     \<lparr>id_value = 64, id_name = Some ''Tempo'', class_name = ''U16Event'', cls = KnownEvent\<rparr>"

definition unknown_event :: event where
  "unknown_event =
     \<lparr>id_value = 100, id_name = None, class_name = ''UnknownDataEvent'',
      cls = UnknownDataEvent\<rparr>"

definition vst_event :: event where
  "vst_event =
     \<lparr>id_value = 213, id_name = Some ''PluginData'', class_name = ''VSTPluginEvent'',
      cls = VSTPluginEvent
        [\<lparr>sid = IntId 7, sdata = [1, 2, 3]\<rparr>,
         \<lparr>sid = EnumId ''Name'' 54, sdata = [65]\<rparr>,
         \<lparr>sid = IntId 9, sdata = []\<rparr>,
         \<lparr>sid = IntId 7, sdata = []\<rparr>]\<rparr>"

definition hostile_event :: event where
  \<open>hostile_event =
     \<lparr>id_value = 7, id_name = Some ''<script>'', class_name = ''A&B"'', cls = KnownEvent\<rparr>\<close>

definition sample_events :: "event list" where
  "sample_events = [known_event, unknown_event, vst_event, unknown_event, known_event]"

text \<open>
  Three environments: one without the pyflp library, one where it is installed and the
  input parses to \<open>sample_events\<close>, and one where in addition the document cannot be
  encoded for the output file. And an empty world to start from.
\<close>

definition env_missing :: env where
  "env_missing =
     \<lparr>import_result = (\<lambda>path. Some (ModuleNotFoundError (Some ''pyflp''))),
      parse_events = (\<lambda>path. Inr sample_events),
      resolve = (\<lambda>path. ''/work/'' @ path),
      repo_root = ''/repo'',
      write_text = (\<lambda>path data. Written)\<rparr>"

definition env_installed :: env where
  "env_installed =
     \<lparr>import_result = (\<lambda>path. None),
      parse_events = (\<lambda>path. Inr sample_events),
      resolve = (\<lambda>path. ''/work/'' @ path),
      repo_root = ''/repo'',
      write_text = (\<lambda>path data. Written)\<rparr>"

definition env_unencodable :: env where
  "env_unencodable =
     \<lparr>import_result = (\<lambda>path. None),
      parse_events = (\<lambda>path. Inr sample_events),
      resolve = (\<lambda>path. ''/work/'' @ path),
      repo_root = ''/repo'',
      write_text = (\<lambda>path data. WriteFailed UnicodeEncodeError [])\<rparr>"

definition sample_args :: args where
  "sample_args = \<lparr>arg_flp_file = ''song.flp'', arg_output = ''parse-report.html'', arg_top = 25\<rparr>"

definition empty_world :: world where
  "empty_world = \<lparr>sys_path = [], files = Map.empty, stdout = []\<rparr>"

section \<open>Properties\<close>

subsection \<open>Coverage counts\<close>

text \<open>
  Claim C1. For every event sequence, the recognized count and the unrecognized count
  add up to the total number of records: the total is the length of the sequence, the
  unrecognized count is the number of events of the unknown class, and the recognized
  count is the number of the remaining events.
\<close>

theorem coverage_counts_partition:
  "parsed_events events + int (length (unknown_top_level events)) = total_events events
   \<and> total_events events = int (length events)
   \<and> length (unknown_top_level events) = length (filter (\<lambda>e. cls e = UnknownDataEvent) events)
   \<and> parsed_events events = int (length (filter (\<lambda>e. cls e \<noteq> UnknownDataEvent) events))"
proof -
  have u: "is_unknown = (\<lambda>e. cls e = UnknownDataEvent)"
    by (simp add: fun_eq_iff is_unknown_def)
  have "length events =
      length (filter (\<lambda>e. cls e = UnknownDataEvent) events) +
      length (filter (\<lambda>e. \<not> cls e = UnknownDataEvent) events)"
    by (rule sum_length_filter_compl [symmetric])
  then show ?thesis
    by (simp add: parsed_events_def unknown_top_level_def total_events_def u)
qed

subsection \<open>Rounding to binary64\<close>

lemma rhe_cases:
  fixes y :: rat
  obtains (lo) "y - of_int \<lfloor>y\<rfloor> < 1/2" "round_half_even y = \<lfloor>y\<rfloor>"
  | (hi) "1/2 < y - of_int \<lfloor>y\<rfloor>" "round_half_even y = \<lfloor>y\<rfloor> + 1"
  | (tie_even) "y - of_int \<lfloor>y\<rfloor> = 1/2" "even \<lfloor>y\<rfloor>" "round_half_even y = \<lfloor>y\<rfloor>"
  | (tie_odd) "y - of_int \<lfloor>y\<rfloor> = 1/2" "odd \<lfloor>y\<rfloor>" "round_half_even y = \<lfloor>y\<rfloor> + 1"
  unfolding round_half_even_def Let_def
  by (cases "y - of_int \<lfloor>y\<rfloor> < 1/2"; cases "1/2 < y - of_int \<lfloor>y\<rfloor>"; cases "even \<lfloor>y\<rfloor>"; auto)

lemma rhe_error: "\<bar>of_int (round_half_even y) - y\<bar> \<le> 1 / 2"
proof (cases y rule: rhe_cases)
  case lo
  moreover have "of_int \<lfloor>y\<rfloor> \<le> y" by simp
  ultimately show ?thesis by simp
next
  case hi
  moreover have "y < of_int \<lfloor>y\<rfloor> + 1" by linarith
  ultimately show ?thesis by simp
next
  case tie_even
  then show ?thesis by simp
next
  case tie_odd
  then show ?thesis by simp
qed

lemma rhe_near:
  assumes "\<bar>y - of_int k\<bar> < 1 / 2"
  shows "round_half_even y = k"
proof -
  have e: "\<bar>of_int (round_half_even y) - y\<bar> \<le> 1 / 2" by (rule rhe_error)
  have "\<bar>(of_int (round_half_even y) :: rat) - of_int k\<bar> < 1"
    using assms e by linarith
  then have "\<bar>round_half_even y - k\<bar> < 1"
    by (metis of_int_abs of_int_diff of_int_less_1_iff)
  then show ?thesis by simp
qed

lemma rhe_tie_even:
  assumes "\<bar>y - of_int k\<bar> \<le> 1 / 2" and "even k"
  shows "round_half_even y = k"
proof (cases "\<bar>y - of_int k\<bar> < 1 / 2")
  case True
  then show ?thesis by (rule rhe_near)
next
  case False
  with assms have "y = of_int k + 1/2 \<or> y = of_int k - 1/2" by linarith
  then show ?thesis
  proof
    assume y: "y = of_int k + 1/2"
    then have "\<lfloor>y\<rfloor> = k" by linarith
    with y assms(2) show ?thesis by (simp add: round_half_even_def)
  next
    assume y: "y = of_int k - 1/2"
    then have f: "\<lfloor>y\<rfloor> = k - 1" by linarith
    with y assms(2) show ?thesis by (simp add: round_half_even_def)
  qed
qed

lemma rhe_of_int: "round_half_even (of_int k) = k"
  by (rule rhe_near) simp

lemma rhe_le: "y \<le> of_int k \<Longrightarrow> round_half_even y \<le> k"
proof -
  assume a: "y \<le> of_int k"
  have f: "\<lfloor>y\<rfloor> \<le> k" using a by (simp add: floor_le_iff)
  show ?thesis
  proof (cases "\<lfloor>y\<rfloor> = k")
    case True
    then have "y = of_int k" using a by linarith
    then show ?thesis by (simp add: rhe_of_int)
  next
    case False
    with f have "\<lfloor>y\<rfloor> + 1 \<le> k" by simp
    then show ?thesis by (cases y rule: rhe_cases) simp_all
  qed
qed

lemma rhe_ge: "of_int k \<le> y \<Longrightarrow> k \<le> round_half_even y"
proof -
  assume a: "of_int k \<le> y"
  then have "k \<le> \<lfloor>y\<rfloor>" by (simp add: le_floor_iff)
  then show ?thesis by (cases y rule: rhe_cases) simp_all
qed


lemma floorlog_sandwich:
  assumes "0 < (p::int)"
  shows "(2::rat) ^ (floorlog 2 (nat p) - 1) \<le> of_int p \<and> of_int p < (2::rat) ^ floorlog 2 (nat p)"
proof -
  from assms have "0 < nat p" by simp
  from floorlog_bounds [OF this, of 2]
  have b: "2 ^ (floorlog 2 (nat p) - 1) \<le> nat p" "nat p < 2 ^ floorlog 2 (nat p)" by simp_all
  have "(of_nat (2 ^ (floorlog 2 (nat p) - 1)) :: rat) \<le> of_nat (nat p)"
    using b(1) by (simp only: of_nat_le_iff)
  moreover have "(of_nat (nat p) :: rat) < of_nat (2 ^ floorlog 2 (nat p))"
    using b(2) by (simp only: of_nat_less_iff)
  moreover have "(of_nat (nat p) :: rat) = of_int p" using assms by simp
  ultimately show ?thesis by simp
qed

lemma expo_bounds:
  assumes "0 < x"
  shows "2 powi expo x \<le> x" and "x < 2 powi (expo x + 1)"
proof -
  obtain p q where pq: "quotient_of x = (p, q)" by (cases "quotient_of x")
  then have q: "0 < q" by (rule quotient_of_denom_pos)
  have x: "x = of_int p / of_int q" using pq by (rule quotient_of_div)
  have p: "0 < p" using assms q x by (simp add: zero_less_divide_iff)
  define a where "a = floorlog 2 (nat p)"
  define b where "b = floorlog 2 (nat q)"
  have a1: "1 \<le> a" using p by (simp add: a_def floorlog_def)
  have b1: "1 \<le> b" using q by (simp add: b_def floorlog_def)
  from floorlog_sandwich [OF p] have pa: "(2::rat) ^ (a - 1) \<le> of_int p" "of_int p < (2::rat) ^ a"
    by (simp_all add: a_def)
  from floorlog_sandwich [OF q] have qb: "(2::rat) ^ (b - 1) \<le> of_int q" "of_int q < (2::rat) ^ b"
    by (simp_all add: b_def)
  define k where "k = int a - int b"
  have e: "expo x = (if 2 powi k \<le> x then k else k - 1)"
    by (simp add: expo_def pq k_def a_def b_def)
  have qpos: "(0::rat) < of_int q" using q by simp
  have up: "x < 2 powi (k + 1)"
  proof -
    have "of_int p < (2::rat) ^ a" by (rule pa)
    also have "(2::rat) ^ a = 2 powi (k + 1) * 2 ^ (b - 1)"
    proof -
      have "int a = (k + 1) + int (b - 1)" using b1 by (simp add: k_def)
      then have "(2::rat) powi int a = 2 powi (k + 1) * 2 powi int (b - 1)"
        by (simp add: power_int_add)
      then show ?thesis by simp
    qed
    also have "\<dots> \<le> 2 powi (k + 1) * of_int q"
      using qb(1) by (simp add: mult_left_mono)
    finally have "(of_int p :: rat) / of_int q < 2 powi (k + 1)"
      using qpos by (simp add: pos_divide_less_eq)
    then show ?thesis by (simp add: x)
  qed
  have lo: "2 powi (k - 1) \<le> x"
  proof -
    have "2 powi (k - 1) * of_int q \<le> 2 powi (k - 1) * (2::rat) ^ b"
      using qb(2) by (simp add: mult_left_mono)
    also have "2 powi (k - 1) * (2::rat) ^ b = 2 ^ (a - 1)"
    proof -
      have "int (a - 1) = (k - 1) + int b" using a1 by (simp add: k_def)
      then have "(2::rat) powi int (a - 1) = 2 powi (k - 1) * 2 powi int b"
        by (simp add: power_int_add)
      then show ?thesis by simp
    qed
    also have "\<dots> \<le> of_int p" by (rule pa)
    finally have "2 powi (k - 1) \<le> (of_int p :: rat) / of_int q"
      using qpos by (simp add: pos_le_divide_eq)
    then show ?thesis by (simp add: x)
  qed
  show "2 powi expo x \<le> x" using e lo by simp
  show "x < 2 powi (expo x + 1)" using e up by (auto simp: not_le)
qed


lemma expo_unique:
  assumes "0 < x" "2 powi e \<le> x" "x < 2 powi (e + 1)"
  shows "expo x = e"
proof (rule ccontr)
  assume ne: "expo x \<noteq> e"
  note b = expo_bounds [OF assms(1)]
  show False
  proof (cases "expo x < e")
    case True
    then have "(2::rat) powi (expo x + 1) \<le> 2 powi e"
      by (intro power_int_increasing) simp_all
    with b(2) assms(2) show False by linarith
  next
    case False
    with ne have "e + 1 \<le> expo x" by simp
    then have "(2::rat) powi (e + 1) \<le> 2 powi expo x"
      by (intro power_int_increasing) simp_all
    with b(1) assms(3) show False by linarith
  qed
qed

lemma expo_less:
  assumes "0 < x" "x < 2 powi (e + 1)"
  shows "expo x \<le> e"
proof (rule ccontr)
  assume "\<not> expo x \<le> e"
  then have "e + 1 \<le> expo x" by simp
  then have "(2::rat) powi (e + 1) \<le> 2 powi expo x"
    by (intro power_int_increasing) simp_all
  with expo_bounds(1) [OF assms(1)] assms(2) show False by linarith
qed

lemma expo_ge:
  assumes "0 < x" "2 powi e \<le> x"
  shows "e \<le> expo x"
proof (rule ccontr)
  assume "\<not> e \<le> expo x"
  then have "expo x + 1 \<le> e" by simp
  then have "(2::rat) powi (expo x + 1) \<le> 2 powi e"
    by (intro power_int_increasing) simp_all
  with expo_bounds(2) [OF assms(1)] assms(2) show False by linarith
qed

lemma qexp_le:
  assumes "0 < x" "x < 2 powi (e + 1)" "- 1022 \<le> e"
  shows "qexp x \<le> e - 52"
  using expo_less [OF assms(1,2)] assms(1,3) by (simp add: qexp_def)

lemma qexp_ge:
  assumes "0 < x" "2 powi e \<le> x"
  shows "e - 52 \<le> qexp x"
  using expo_ge [OF assms] assms(1) by (simp add: qexp_def)

lemma quantum_pos: "0 < quantum x"
  by (simp add: quantum_def zero_less_power_int)

lemma pow2_multiple:
  assumes "n \<le> m"
  shows "(2::rat) powi m = of_int (2 ^ nat (m - n)) * 2 powi n"
proof -
  define d where "d = nat (m - n)"
  have "m = int d + n" using assms by (simp add: d_def)
  then have "(2::rat) powi m = 2 powi int d * 2 powi n"
    by (simp only: power_int_add [of "2::rat", simplified])
  then show ?thesis by (simp add: d_def [symmetric])
qed

lemma on_grid_quantum:
  assumes "qexp x \<le> m"
  shows "of_int j * 2 powi m = of_int (j * 2 ^ nat (m - qexp x)) * quantum x"
  using pow2_multiple [OF assms] by (simp add: quantum_def)

lemma binary64_error:
  "\<bar>binary64 x - x\<bar> \<le> quantum x / 2"
proof (cases "x = 0")
  case True
  then show ?thesis using quantum_pos [of x] by (simp add: binary64_def)
next
  case False
  define q where "q = quantum x"
  have q: "0 < q" by (simp add: q_def quantum_pos)
  define k where "k = round_half_even (x / q)"
  have "\<bar>of_int k - x / q\<bar> \<le> 1 / 2" unfolding k_def by (rule rhe_error)
  then have "\<bar>of_int k - x / q\<bar> * q \<le> 1 / 2 * q"
    using q by (intro mult_right_mono) simp_all
  moreover have "\<bar>of_int k - x / q\<bar> * q = \<bar>of_int k * q - x\<bar>"
  proof -
    have "\<bar>of_int k - x / q\<bar> * q = \<bar>(of_int k - x / q) * q\<bar>"
      using q by (simp add: abs_mult)
    also have "(of_int k - x / q) * q = of_int k * q - x"
      using q by (simp add: left_diff_distrib)
    finally show ?thesis .
  qed
  ultimately show ?thesis using False by (simp add: binary64_def q_def k_def)
qed

lemma binary64_exact:
  assumes "qexp x \<le> m" "x = of_int j * 2 powi m"
  shows "binary64 x = x"
proof (cases "x = 0")
  case True
  then show ?thesis by (simp add: binary64_def)
next
  case False
  define k where "k = j * 2 ^ nat (m - qexp x)"
  define q where "q = quantum x"
  have q: "0 < q" by (simp add: q_def quantum_pos)
  have "of_int j * 2 powi m = of_int k * q"
    unfolding k_def q_def by (rule on_grid_quantum [OF assms(1)])
  with assms(2) have x: "x = of_int k * q" by (rule trans)
  have "of_int k * q / q = (of_int k :: rat)" using q by simp
  then have "x / q = of_int k" by (simp only: x [symmetric])
  then have "round_half_even (x / q) = k" by (simp only: rhe_of_int)
  then have "of_int (round_half_even (x / q)) * q = x" by (simp only: x [symmetric])
  then show ?thesis using False by (simp add: binary64_def q_def)
qed

lemma binary64_le:
  assumes "qexp x \<le> m" "x \<le> of_int j * 2 powi m"
  shows "binary64 x \<le> of_int j * 2 powi m"
proof (cases "x = 0")
  case True
  then show ?thesis using assms by (simp add: binary64_def)
next
  case False
  define k where "k = j * 2 ^ nat (m - qexp x)"
  have c: "of_int j * 2 powi m = of_int k * quantum x"
    using on_grid_quantum [OF assms(1), of j] by (simp add: k_def)
  have "x / quantum x \<le> of_int k"
    using assms(2) quantum_pos [of x] by (simp add: c pos_divide_le_eq)
  then have "round_half_even (x / quantum x) \<le> k" by (rule rhe_le)
  then have "(of_int (round_half_even (x / quantum x)) :: rat) \<le> of_int k" by simp
  then have "of_int (round_half_even (x / quantum x)) * quantum x \<le> of_int k * quantum x"
    using quantum_pos [of x] by (intro mult_right_mono) simp_all
  then show ?thesis using False by (simp add: binary64_def c)
qed

lemma binary64_ge:
  assumes "qexp x \<le> m" "of_int j * 2 powi m \<le> x"
  shows "of_int j * 2 powi m \<le> binary64 x"
proof (cases "x = 0")
  case True
  then show ?thesis using assms by (simp add: binary64_def)
next
  case False
  define k where "k = j * 2 ^ nat (m - qexp x)"
  have c: "of_int j * 2 powi m = of_int k * quantum x"
    using on_grid_quantum [OF assms(1), of j] by (simp add: k_def)
  have "of_int k \<le> x / quantum x"
    using assms(2) quantum_pos [of x] by (simp add: c pos_le_divide_eq)
  then have "k \<le> round_half_even (x / quantum x)" by (rule rhe_ge)
  then have "(of_int k :: rat) \<le> of_int (round_half_even (x / quantum x))" by simp
  then have "of_int k * quantum x \<le> of_int (round_half_even (x / quantum x)) * quantum x"
    using quantum_pos [of x] by (intro mult_right_mono) simp_all
  then show ?thesis using False by (simp add: binary64_def c)
qed

lemma binary64_on_grid:
  assumes "m \<le> qexp x"
  shows "\<exists>k. binary64 x = of_int k * 2 powi m"
proof (cases "x = 0")
  case True
  then have "binary64 x = of_int 0 * 2 powi m" by (simp add: binary64_def)
  then show ?thesis ..
next
  case False
  have "quantum x = of_int (2 ^ nat (qexp x - m)) * 2 powi m"
    unfolding quantum_def by (rule pow2_multiple [OF assms])
  then have "binary64 x =
      of_int (round_half_even (x / quantum x) * 2 ^ nat (qexp x - m)) * 2 powi m"
    using False by (simp add: binary64_def)
  then show ?thesis ..
qed

lemma binary64_tie_even:
  assumes "x \<noteq> 0" "qexp x = m" "\<bar>x - of_int k * 2 powi m\<bar> \<le> 2 powi m / 2" "even k"
  shows "binary64 x = of_int k * 2 powi m"
proof -
  have q: "quantum x = 2 powi m" by (simp add: quantum_def assms(2))
  have qp: "(0::rat) < 2 powi m" by (simp add: zero_less_power_int)
  have "\<bar>x / 2 powi m - of_int k\<bar> * 2 powi m = \<bar>(x / 2 powi m - of_int k) * 2 powi m\<bar>"
    using qp by (simp add: abs_mult)
  also have "(x / 2 powi m - of_int k) * 2 powi m = x - of_int k * 2 powi m"
    using qp by (simp add: left_diff_distrib)
  finally have "\<bar>x / 2 powi m - of_int k\<bar> * 2 powi m \<le> 1 / 2 * 2 powi m"
    using assms(3) by simp
  then have "\<bar>x / 2 powi m - of_int k\<bar> \<le> 1 / 2"
    using qp by (simp only: mult_le_cancel_right_pos)
  then have "round_half_even (x / 2 powi m) = k" using assms(4) by (rule rhe_tie_even)
  then show ?thesis using assms(1) by (simp add: binary64_def q)
qed

lemma binary64_near:
  assumes "x \<noteq> 0" "qexp x = m" "\<bar>x / 2 powi m - of_int k\<bar> < 1 / 2"
  shows "binary64 x = of_int k * 2 powi m"
proof -
  have q: "quantum x = 2 powi m" by (simp add: quantum_def assms(2))
  have "round_half_even (x / 2 powi m) = k" using assms(3) by (rule rhe_near)
  then show ?thesis using assms(1) by (simp add: binary64_def q)
qed

lemma qexp_eq:
  assumes "0 < x" "2 powi e \<le> x" "x < 2 powi (e + 1)" "- 1022 \<le> e"
  shows "qexp x = e - 52"
  using expo_unique [OF assms(1-3)] assms(1,4) by (simp add: qexp_def)

lemma qexp_zero: "qexp 0 = - 54"
  by (simp add: qexp_def expo_def floorlog_def)

lemma quantum_le:
  assumes "qexp x \<le> m"
  shows "quantum x \<le> 2 powi m"
  unfolding quantum_def using assms by (intro power_int_increasing) simp_all

lemma binary64_unit_interval:
  assumes "0 \<le> x" "x \<le> 1"
  shows "0 \<le> binary64 x" and "binary64 x \<le> 1" and "\<bar>binary64 x - x\<bar> \<le> 2 powi (- 54)"
proof -
  have q0: "qexp x \<le> 0"
  proof (cases "x = 0")
    case True
    then show ?thesis by (simp add: qexp_zero)
  next
    case False
    with assms have "0 < x" "x < 2 powi (0 + 1)" by simp_all
    then have "qexp x \<le> 0 - 52" by (rule qexp_le) simp
    then show ?thesis by simp
  qed
  have "of_int 0 * 2 powi 0 \<le> binary64 x"
    using q0 assms(1) by (intro binary64_ge) simp_all
  then show "0 \<le> binary64 x" by simp
  have "binary64 x \<le> of_int 1 * 2 powi 0"
    using q0 assms(2) by (intro binary64_le) simp_all
  then show "binary64 x \<le> 1" by simp
  show "\<bar>binary64 x - x\<bar> \<le> 2 powi (- 54)"
  proof (cases "x = 0 \<or> x = 1")
    case True
    then have "binary64 x = x"
    proof
      assume "x = 0"
      then show ?thesis by (simp add: binary64_def)
    next
      assume "x = 1"
      then have "x = of_int 1 * 2 powi 0" by simp
      with q0 show ?thesis by (rule binary64_exact)
    qed
    then show ?thesis by simp
  next
    case False
    with assms have "0 < x" "x < 2 powi (- 1 + 1)" by simp_all
    then have "qexp x \<le> - 1 - 52" by (rule qexp_le) simp
    then have "quantum x \<le> 2 powi (- 53)" using quantum_le [of x "- 53"] by simp
    moreover have "\<bar>binary64 x - x\<bar> \<le> quantum x / 2" by (rule binary64_error)
    ultimately show ?thesis by simp
  qed
qed

lemma qexp_percent:
  assumes "0 \<le> y" "y \<le> 100"
  shows "qexp y \<le> - 46"
proof (cases "y = 0")
  case True
  then show ?thesis by (simp add: qexp_zero)
next
  case False
  with assms have "0 < y" "y < 2 powi (6 + 1)" by simp_all
  then have "qexp y \<le> 6 - 52" by (rule qexp_le) simp
  then show ?thesis by simp
qed

lemma binary64_percent:
  assumes "0 \<le> y" "y \<le> 100"
  shows "0 \<le> binary64 y" and "binary64 y \<le> 100" and "\<bar>binary64 y - y\<bar> \<le> 2 powi (- 47)"
proof -
  have q: "qexp y \<le> - 46" using assms by (rule qexp_percent)
  then have q0: "qexp y \<le> 0" by simp
  have "of_int 0 * 2 powi 0 \<le> binary64 y"
    using q0 assms(1) by (intro binary64_ge) simp_all
  then show "0 \<le> binary64 y" by simp
  have "binary64 y \<le> of_int 100 * 2 powi 0"
    using q0 assms(2) by (intro binary64_le) simp_all
  then show "binary64 y \<le> 100" by simp
  have "quantum y \<le> 2 powi (- 46)" using q by (rule quantum_le)
  moreover have "\<bar>binary64 y - y\<bar> \<le> quantum y / 2" by (rule binary64_error)
  ultimately show "\<bar>binary64 y - y\<bar> \<le> 2 powi (- 47)" by simp
qed

lemma binary64_100: "binary64 100 = 100"
proof -
  have "qexp 100 \<le> 0" using qexp_percent [of 100] by simp
  moreover have "(100::rat) = of_int 100 * 2 powi 0" by simp
  ultimately show ?thesis by (rule binary64_exact)
qed

lemma percent_complement:
  assumes y: "0 \<le> y" "y \<le> 100"
  shows "binary64 (binary64 y + binary64 (100 - binary64 y)) = 100"
proof -
  define p where "p = binary64 y"
  have p: "0 \<le> p" "p \<le> 100" using binary64_percent [OF y] by (simp_all add: p_def)
  define d where "d = 100 - p"
  have d: "0 \<le> d" "d \<le> 100" using p by (simp_all add: d_def)
  show ?thesis
  proof (cases "36 < p")
    case True
    have y32: "2 powi 5 \<le> y"
    proof (rule ccontr)
      assume "\<not> 2 powi 5 \<le> y"
      then have y5: "y < 2 powi (4 + 1)" by simp
      have "qexp y \<le> 5"
      proof (cases "y = 0")
        case True
        then show ?thesis by (simp add: qexp_zero)
      next
        case False
        with y have "0 < y" by simp
        then have "qexp y \<le> 4 - 52" using y5 by (rule qexp_le) simp
        then show ?thesis by simp
      qed
      moreover have "y \<le> of_int 1 * 2 powi 5" using y5 by simp
      ultimately have "binary64 y \<le> of_int 1 * 2 powi 5" by (rule binary64_le)
      with True show False by (simp add: p_def)
    qed
    then have ypos: "0 < y" by (rule less_le_trans [rotated]) simp
    have "5 - 52 \<le> qexp y" using ypos y32 by (rule qexp_ge)
    then have "- 47 \<le> qexp y" by simp
    then obtain k where k: "p = of_int k * 2 powi (- 47)"
      unfolding p_def using binary64_on_grid by blast
    have dk: "d = of_int (100 * 2 ^ 47 - k) * 2 powi (- 47)"
      by (simp add: d_def k left_diff_distrib power_int_minus)
    have "qexp d \<le> - 47"
    proof (cases "d = 0")
      case True
      then show ?thesis by (simp add: qexp_zero)
    next
      case False
      with d True have "0 < d" "d < 2 powi (5 + 1)" by (simp_all add: d_def)
      then have "qexp d \<le> 5 - 52" by (rule qexp_le) simp
      then show ?thesis by simp
    qed
    then have "binary64 d = d" using dk by (rule binary64_exact)
    then have "p + binary64 (100 - p) = 100" by (simp add: d_def)
    then show ?thesis by (simp add: p_def [symmetric] binary64_100)
  next
    case False
    then have d64: "2 powi 6 \<le> d" by (simp add: d_def)
    then have dpos: "0 < d" by (rule less_le_trans [rotated]) simp
    have "d < 2 powi (6 + 1)" using d by simp
    with dpos d64 have "qexp d = 6 - 52" by (intro qexp_eq) simp_all
    then have "quantum d = 2 powi (- 46)" by (simp add: quantum_def)
    moreover have "\<bar>binary64 d - d\<bar> \<le> quantum d / 2" by (rule binary64_error)
    ultimately have e: "\<bar>binary64 d - d\<bar> \<le> 2 powi (- 47)" by simp
    define s where "s = p + binary64 d"
    have "s - 100 = binary64 d - d" by (simp add: s_def d_def)
    with e have s: "\<bar>s - 100\<bar> \<le> 2 powi (- 47)" by (simp only:)
    have "(2::rat) powi (- 47) \<le> 1" by simp
    with s have "\<bar>s - 100\<bar> \<le> 1" by (rule order_trans)
    then have "64 \<le> s" "s < 128" by linarith+
    then have "2 powi 6 \<le> s" "s < 2 powi (6 + 1)" by simp_all
    moreover from this have "0 < s" by simp
    ultimately have "qexp s = 6 - 52" by (intro qexp_eq) simp_all
    then have qs: "qexp s = - 46" by simp
    have "binary64 s = of_int (100 * 2 ^ 46) * 2 powi (- 46)"
    proof (rule binary64_tie_even [OF _ qs])
      show "s \<noteq> 0" using \<open>0 < s\<close> by simp
      show "even (100 * 2 ^ 46 :: int)" by simp
      show "\<bar>s - of_int (100 * 2 ^ 46) * 2 powi (- 46)\<bar> \<le> 2 powi (- 46) / 2"
        using s by simp
    qed
    then have "binary64 s = 100" by simp
    then show ?thesis by (simp add: s_def d_def p_def)
  qed
qed

subsection \<open>Percentages\<close>

lemma ratio_unit:
  assumes "0 \<le> n" "n \<le> d" "0 < (d::int)"
  shows "0 \<le> (of_int n :: rat) / of_int d" "(of_int n :: rat) / of_int d \<le> 1"
  using assms by (simp_all add: divide_le_eq_1)

lemma pct_value:
  assumes "0 \<le> n" "n \<le> d" "0 < d"
  shows "pct n d = Inr (binary64 (binary64 (of_int n / of_int d) * 100))"
proof -
  note r = ratio_unit [OF assms]
  have "\<bar>binary64 (of_int n / of_int d)\<bar> \<le> 1"
    using binary64_unit_interval(1,2) [OF r] by simp
  moreover have "(1::rat) < 2 ^ 1024" by simp
  ultimately have "\<not> 2 ^ 1024 \<le> \<bar>binary64 (of_int n / of_int d)\<bar>" by linarith
  then show ?thesis using assms(3) by (simp add: pct_def int_truediv_def float_mul_def)
qed

lemma pct_accuracy:
  assumes "0 \<le> n" "n \<le> d" "0 < d"
  defines "x \<equiv> (of_int n :: rat) / of_int d"
  defines "p \<equiv> binary64 (binary64 x * 100)"
  shows "0 \<le> p" "p \<le> 100" "\<bar>p - 100 * x\<bar> \<le> 2 powi (- 46)"
    "binary64 (p + binary64 (100 - p)) = 100"
proof -
  have x: "0 \<le> x" "x \<le> 1" using ratio_unit [OF assms(1-3)] by (simp_all add: x_def)
  define r where "r = binary64 x"
  note rb = binary64_unit_interval [OF x, folded r_def]
  have y: "0 \<le> r * 100" "r * 100 \<le> 100" using rb(1,2) by simp_all
  note pb = binary64_percent [OF y]
  show "0 \<le> p" "p \<le> 100" using pb(1,2) by (simp_all add: p_def r_def)
  have "r * 100 - x * 100 = (r - x) * 100" by (simp add: left_diff_distrib)
  then have "\<bar>r * 100 - x * 100\<bar> = \<bar>r - x\<bar> * 100" by (simp only: abs_mult abs_numeral)
  also have "\<dots> \<le> 2 powi (- 54) * 100" using rb(3) by (intro mult_right_mono) simp_all
  finally have "\<bar>r * 100 - x * 100\<bar> \<le> 2 powi (- 54) * 100" .
  moreover have "\<bar>binary64 (r * 100) - r * 100\<bar> \<le> 2 powi (- 47)" by (rule pb(3))
  moreover have "(2::rat) powi (- 54) * 100 + 2 powi (- 47) \<le> 2 powi (- 46)" by simp
  ultimately have "\<bar>binary64 (r * 100) - x * 100\<bar> \<le> 2 powi (- 46)" by linarith
  then show "\<bar>p - 100 * x\<bar> \<le> 2 powi (- 46)" by (simp add: p_def r_def mult.commute)
  show "binary64 (p + binary64 (100 - p)) = 100"
    unfolding p_def r_def [symmetric] using y by (rule percent_complement)
qed

lemma parsed_events_range:
  "0 \<le> parsed_events events" "parsed_events events \<le> total_events events"
  by (simp_all add: parsed_events_def total_events_def unknown_top_level_def)

text \<open>
  Claim C2, as amended. For every event sequence both percentages are computed without
  an exception. On an empty sequence both are 0.0 and nothing is divided. Otherwise
  \<open>parsed_pct\<close> is the double \<open>(parsed_events / total_events) * 100\<close>: the
  quotient rounded to binary64, times 100, rounded again. It lies between 0 and 100 and
  within \<open>2 powi - 46\<close> of the exact \<open>100 * parsed_events / total_events\<close>, which it
  need not equal. \<open>unknown_pct\<close> is the double \<open>100.0 - parsed_pct\<close>, and the float
  sum of the two percentages is exactly 100.0.
\<close>

theorem percentages_binary64:
  "\<exists>p u. parsed_pct events = Inr p \<and> unknown_pct events = Inr u
     \<and> (total_events events = 0 \<longrightarrow> p = 0 \<and> u = 0)
     \<and> (0 < total_events events \<longrightarrow>
           p = binary64 (binary64 (of_int (parsed_events events) / of_int (total_events events)) * 100)
         \<and> u = binary64 (100 - p)
         \<and> \<bar>p - 100 * (of_int (parsed_events events) / of_int (total_events events))\<bar> \<le> 2 powi (- 46)
         \<and> 0 \<le> p \<and> p \<le> 100
         \<and> binary64 (p + u) = 100)"
proof (cases "total_events events = 0")
  case True
  then show ?thesis by (simp add: parsed_pct_def unknown_pct_def pct_def)
next
  case False
  then have t: "0 < total_events events" by (simp add: total_events_def)
  note v = pct_value [OF parsed_events_range t]
  note a = pct_accuracy [OF parsed_events_range t]
  show ?thesis
    using False t a by (simp add: parsed_pct_def unknown_pct_def v float_sub_def)
qed

lemma binary64_11_20: "binary64 (11 / 20) = 4953959590107546 / 9007199254740992"
proof -
  have q: "qexp (11 / 20) = - 1 - 52" by (rule qexp_eq) simp_all
  have "binary64 (11 / 20) = of_int 4953959590107546 * 2 powi (- 53)"
    by (rule binary64_near) (simp_all add: q)
  then show ?thesis by simp
qed

lemma binary64_55:
  "binary64 (61924494876344325 / 1125899906842624) = 7740561859543041 / 140737488355328"
proof -
  have q: "qexp (61924494876344325 / 1125899906842624) = 5 - 52" by (rule qexp_eq) simp_all
  have "binary64 (61924494876344325 / 1125899906842624) = of_int 7740561859543041 * 2 powi (- 47)"
    by (rule binary64_near) (simp_all add: q)
  then show ?thesis by simp
qed

text \<open>
  The formula of claim C2 as stated fails on twenty events of which eleven are known:
  \<open>(11 / 20) * 100\<close> is the double 55.00000000000001, not 55.
\<close>

theorem parsed_pct_formula_counterexample:
  "parsed_events (replicate 11 known_event @ replicate 9 unknown_event) = 11
   \<and> total_events (replicate 11 known_event @ replicate 9 unknown_event) = 20
   \<and> parsed_pct (replicate 11 known_event @ replicate 9 unknown_event)
       = Inr (7740561859543041 / 140737488355328)
   \<and> parsed_pct (replicate 11 known_event @ replicate 9 unknown_event) \<noteq> Inr (100 * 11 / 20)"
proof -
  have u: "is_unknown unknown_event" "\<not> is_unknown known_event"
    by (simp_all add: is_unknown_def unknown_event_def known_event_def)
  have c: "parsed_events (replicate 11 known_event @ replicate 9 unknown_event) = 11"
    "total_events (replicate 11 known_event @ replicate 9 unknown_event) = 20"
    by (simp_all add: parsed_events_def total_events_def unknown_top_level_def u)
  have "pct 11 20 = Inr (7740561859543041 / 140737488355328)"
    using pct_value [of 11 20] by (simp add: binary64_11_20 binary64_55)
  then show ?thesis by (simp add: c parsed_pct_def)
qed

text \<open>
  Claim C2 as amended, at the empty sequence and at a sequence of one known and one
  unknown event.
\<close>

theorem percentages_binary64_witness:
  "total_events [] = 0 \<and> parsed_pct [] = Inr 0 \<and> unknown_pct [] = Inr 0
   \<and> (\<exists>p u. parsed_pct [known_event, unknown_event] = Inr p
     \<and> unknown_pct [known_event, unknown_event] = Inr u
     \<and> 0 < total_events [known_event, unknown_event]
     \<and> p = binary64 (binary64 (of_int (parsed_events [known_event, unknown_event])
                               / of_int (total_events [known_event, unknown_event])) * 100)
     \<and> u = binary64 (100 - p) \<and> binary64 (p + u) = 100)"
  using percentages_binary64 [of "[known_event, unknown_event]"] percentages_binary64 [of "[]"]
  by (simp add: total_events_def)

subsection \<open>Counters\<close>

lemma Counter_snoc: "Counter (ks @ [k]) = counter_add k (Counter ks)"
  by (simp add: Counter_def)

lemma counter_add_new:
  "k \<notin> fst ` set c \<Longrightarrow> counter_add k c = c @ [(k, 1)]"
  by (induction c) auto

lemma counter_add_old:
  "distinct keys \<Longrightarrow> k \<in> set keys \<Longrightarrow>
   counter_add k (map (\<lambda>x. (x, g x)) keys) = map (\<lambda>x. (x, if x = k then g x + 1 else g x)) keys"
  by (induction keys) auto

lemma first_keys_snoc:
  "first_keys (ks @ [k]) = (if k \<in> set ks then first_keys ks else first_keys ks @ [k])"
  by (simp add: first_keys_def)

lemma set_first_keys: "set (first_keys ks) = set ks"
  by (simp add: first_keys_def)

lemma distinct_first_keys: "distinct (first_keys ks)"
  by (simp add: first_keys_def)

lemma length_first_keys: "length (first_keys ks) = card (set ks)"
  using length_remdups_card_conv [of "rev ks"] by (simp add: first_keys_def)

lemma Counter_eq:
  "Counter ks = map (\<lambda>k. (k, int (count_list ks k))) (first_keys ks)"
proof (induction ks rule: rev_induct)
  case Nil
  show ?case by (simp add: Counter_def first_keys_def)
next
  case (snoc k ks)
  show ?case
  proof (cases "k \<in> set ks")
    case True
    then have "counter_add k (map (\<lambda>x. (x, int (count_list ks x))) (first_keys ks))
        = map (\<lambda>x. (x, if x = k then int (count_list ks x) + 1 else int (count_list ks x)))
            (first_keys ks)"
      by (intro counter_add_old) (simp_all add: distinct_first_keys set_first_keys)
    then show ?thesis using True by (simp add: Counter_snoc snoc first_keys_snoc)
  next
    case False
    then have "k \<notin> fst ` set (map (\<lambda>x. (x, int (count_list ks x))) (first_keys ks))"
      by (simp add: image_image set_first_keys)
    then have "counter_add k (map (\<lambda>x. (x, int (count_list ks x))) (first_keys ks))
        = map (\<lambda>x. (x, int (count_list ks x))) (first_keys ks) @ [(k, 1)]"
      by (rule counter_add_new)
    moreover have "map (\<lambda>x. (x, int (count_list (ks @ [k]) x))) (first_keys ks)
        = map (\<lambda>x. (x, int (count_list ks x))) (first_keys ks)"
      using False by (auto simp: set_first_keys)
    ultimately show ?thesis
      using False by (simp add: Counter_snoc snoc first_keys_snoc count_list_0_iff)
  qed
qed

lemma first_seen_less: "k \<in> set ks \<Longrightarrow> first_seen ks k < length ks"
  by (induction ks) (auto simp: first_seen_def)

lemma first_seen_snoc_old: "k \<in> set ks \<Longrightarrow> first_seen (ks @ [x]) k = first_seen ks k"
  by (induction ks) (auto simp: first_seen_def)

lemma first_seen_snoc_new: "k \<notin> set ks \<Longrightarrow> first_seen (ks @ [k]) k = length ks"
  by (simp add: first_seen_def takeWhile_append)

lemma first_keys_sorted:
  "sorted_wrt (\<lambda>a b. first_seen ks a < first_seen ks b) (first_keys ks)"
proof (induction ks rule: rev_induct)
  case Nil
  show ?case by (simp add: first_keys_def)
next
  case (snoc k ks)
  have old: "sorted_wrt (\<lambda>a b. first_seen (ks @ [k]) a < first_seen (ks @ [k]) b) (first_keys ks)"
    using snoc
    by (rule sorted_wrt_mono_rel [rotated]) (simp add: set_first_keys first_seen_snoc_old)
  show ?case
  proof (cases "k \<in> set ks")
    case True
    then show ?thesis using old by (simp add: first_keys_snoc)
  next
    case False
    then show ?thesis using old
      by (simp add: first_keys_snoc sorted_wrt_append set_first_keys
          first_seen_snoc_old first_seen_snoc_new first_seen_less)
  qed
qed

lemma Counter_first_seen:
  "sorted_wrt (\<lambda>a b. first_seen ks (fst a) < first_seen ks (fst b)) (Counter ks)"
  using first_keys_sorted [of ks] by (simp add: Counter_eq sorted_wrt_map)

lemma stable_sorted_wrt:
  fixes f :: "'a \<Rightarrow> int"
  assumes "sorted (map f xs)" "\<And>v. sorted_wrt R (filter (\<lambda>y. f y = v) xs)"
  shows "sorted_wrt (\<lambda>a b. f a < f b \<or> (f a = f b \<and> R a b)) xs"
  using assms
proof (induction xs)
  case Nil
  show ?case by simp
next
  case (Cons x xs)
  have tail: "sorted_wrt (\<lambda>a b. f a < f b \<or> (f a = f b \<and> R a b)) xs"
  proof (rule Cons.IH)
    show "sorted (map f xs)" using Cons.prems(1) by simp
    fix v
    show "sorted_wrt R (filter (\<lambda>y. f y = v) xs)"
      using Cons.prems(2) [of v] by (simp split: if_splits)
  qed
  have "f x < f y \<or> (f x = f y \<and> R x y)" if y: "y \<in> set xs" for y
  proof (cases "f x = f y")
    case True
    with Cons.prems(2) [of "f x"] y show ?thesis by auto
  next
    case False
    moreover have "f x \<le> f y" using Cons.prems(1) y by simp
    ultimately show ?thesis by simp
  qed
  with tail show ?case by simp
qed

lemma sorted_reverse_ranked: "ranked ks (sorted_reverse (Counter ks))"
proof -
  let ?f = "\<lambda>item :: 'a \<times> int. - snd item"
  let ?R = "\<lambda>a b :: 'a \<times> int. first_seen ks (fst a) < first_seen ks (fst b)"
  have "sorted (map ?f (sort_key ?f (Counter ks)))" by (rule sorted_sort_key)
  moreover have "sorted_wrt ?R (filter (\<lambda>y. ?f y = v) (sort_key ?f (Counter ks)))" for v
    by (simp only: sort_key_stable) (rule sorted_wrt_filter [OF Counter_first_seen])
  ultimately have "sorted_wrt (\<lambda>a b. ?f a < ?f b \<or> (?f a = ?f b \<and> ?R a b))
      (sort_key ?f (Counter ks))"
    by (rule stable_sorted_wrt)
  then show ?thesis by (simp add: ranked_def sorted_reverse_def)
qed

lemma most_common_ranked: "ranked ks (most_common n (Counter ks))"
  using sorted_reverse_ranked [of ks]
  by (simp add: ranked_def most_common_def nlargest_def sorted_wrt_take)

lemma set_sorted_reverse: "set (sorted_reverse c) = set c"
  by (simp add: sorted_reverse_def)

lemma set_Counter: "set (Counter ks) = (\<lambda>k. (k, int (count_list ks k))) ` set ks"
  by (simp add: Counter_eq set_first_keys)

lemma most_common_counts:
  "set (most_common n (Counter ks)) \<subseteq> (\<lambda>k. (k, int (count_list ks k))) ` set ks"
  using set_take_subset [of "nat n" "sorted_reverse (Counter ks)"]
  by (simp add: most_common_def nlargest_def set_sorted_reverse set_Counter)

lemma length_Counter: "length (Counter ks) = card (set ks)"
  by (simp add: Counter_eq length_first_keys)

lemma most_common_take: "most_common n c = take (nat n) (most_common_all c)"
  by (simp add: most_common_def nlargest_def most_common_all_def)

lemma most_common_all_keys:
  "distinct (map fst (most_common_all (Counter ks)))"
  "set (map fst (most_common_all (Counter ks))) = set ks"
proof -
  have d: "distinct (map fst (Counter ks))"
    by (simp add: Counter_eq comp_def distinct_first_keys)
  show "distinct (map fst (most_common_all (Counter ks)))"
    unfolding most_common_all_def sorted_reverse_def
    by (metis d distinct_map distinct_sort set_sort)
  show "set (map fst (most_common_all (Counter ks))) = set ks"
    by (simp add: most_common_all_def set_sorted_reverse set_Counter image_image)
qed

lemma most_common_whole:
  assumes "int (card (set ks)) \<le> n"
  shows "most_common n (Counter ks) = most_common_all (Counter ks)"
proof -
  have "length (most_common_all (Counter ks)) = card (set ks)"
    by (simp add: most_common_all_def sorted_reverse_def length_Counter)
  then show ?thesis using assms by (simp add: most_common_take)
qed

subsection \<open>Nested sub-events\<close>

lemma vst_sub_loop_eq:
  "vst_sub_loop subs acc =
     acc @ map (\<lambda>s. (int_value (sid s), int (length (sdata s))))
             (filter (\<lambda>s. type_is_int (sid s)) subs)"
  by (induction subs arbitrary: acc) simp_all

lemma vst_event_loop_eq:
  "vst_event_loop events acc =
     acc @ concat (map (\<lambda>e. case cls e of
                          VSTPluginEvent subs \<Rightarrow>
                            map (\<lambda>s. (int_value (sid s), int (length (sdata s))))
                              (filter (\<lambda>s. type_is_int (sid s)) subs)
                        | UnknownDataEvent \<Rightarrow> []
                        | KnownEvent \<Rightarrow> []) events)"
  by (induction events arbitrary: acc) (simp_all add: vst_sub_loop_eq split: event_class.split)

lemma vst_event_loop_others:
  "\<forall>x \<in> set events. \<forall>ss. cls x \<noteq> VSTPluginEvent ss \<Longrightarrow> vst_event_loop events acc = acc"
  by (induction events arbitrary: acc) (auto split: event_class.split)

lemma vst_event_loop_append:
  "vst_event_loop (xs @ ys) acc = vst_event_loop ys (vst_event_loop xs acc)"
  by (induction xs arbitrary: acc) simp_all

text \<open>
  Claim C5. In an event sequence where exactly one event is a VST plugin event, with
  nested entries \<open>subs\<close>, the nested tally holds one entry for every sub-event whose
  id is a plain \<open>int\<close>, in order, and none for a sub-event whose id is a named enum
  member. The events of any other kind contribute nothing, and a plugin event without
  nested entries contributes nothing.
\<close>

theorem nested_tally:
  assumes "cls e = VSTPluginEvent subs"
    and "\<forall>x \<in> set pre \<union> set post. \<forall>ss. cls x \<noteq> VSTPluginEvent ss"
  shows "unknown_vst_subevents (pre @ e # post) =
           map (\<lambda>s. (int_value (sid s), int (length (sdata s))))
             (filter (\<lambda>s. type_is_int (sid s)) subs)
       \<and> length (unknown_vst_subevents (pre @ e # post)) =
           length (filter (\<lambda>s. type_is_int (sid s)) subs)
       \<and> unknown_vst_counts (pre @ e # post) =
           Counter (map (\<lambda>s. int_value (sid s)) (filter (\<lambda>s. type_is_int (sid s)) subs))
       \<and> unknown_vst_subevents (pre @ post) = []
       \<and> (subs = [] \<longrightarrow> unknown_vst_subevents (pre @ e # post) = [])"
proof -
  have pre: "vst_event_loop pre acc = acc" for acc
    using assms(2) by (intro vst_event_loop_others) simp
  have post: "vst_event_loop post acc = acc" for acc
    using assms(2) by (intro vst_event_loop_others) simp
  have main: "unknown_vst_subevents (pre @ e # post) =
      map (\<lambda>s. (int_value (sid s), int (length (sdata s))))
        (filter (\<lambda>s. type_is_int (sid s)) subs)"
    by (simp add: unknown_vst_subevents_def vst_event_loop_append pre post assms(1)
        vst_sub_loop_eq)
  have none: "unknown_vst_subevents (pre @ post) = []"
    by (simp add: unknown_vst_subevents_def vst_event_loop_append pre post)
  show ?thesis
    by (simp add: main none unknown_vst_counts_def comp_def)
qed

text \<open>
  Claim C5 at \<open>vst_event\<close> between a known and an unknown event.
\<close>

theorem nested_tally_witness:
  "cls vst_event =
     VSTPluginEvent
       [\<lparr>sid = IntId 7, sdata = [1, 2, 3]\<rparr>, \<lparr>sid = EnumId ''Name'' 54, sdata = [65]\<rparr>,
        \<lparr>sid = IntId 9, sdata = []\<rparr>, \<lparr>sid = IntId 7, sdata = []\<rparr>]
   \<and> cls known_event = KnownEvent \<and> cls unknown_event = UnknownDataEvent
   \<and> unknown_vst_subevents ([known_event] @ vst_event # [unknown_event]) = [(7, 3), (9, 0), (7, 0)]
   \<and> unknown_vst_subevents ([known_event] @ [unknown_event]) = []"
proof -
  have c: "cls vst_event =
     VSTPluginEvent
       [\<lparr>sid = IntId 7, sdata = [1, 2, 3]\<rparr>, \<lparr>sid = EnumId ''Name'' 54, sdata = [65]\<rparr>,
        \<lparr>sid = IntId 9, sdata = []\<rparr>, \<lparr>sid = IntId 7, sdata = []\<rparr>]"
    by (simp add: vst_event_def)
  have o: "\<forall>x \<in> set [known_event] \<union> set [unknown_event]. \<forall>ss. cls x \<noteq> VSTPluginEvent ss"
    by (simp add: known_event_def unknown_event_def)
  show ?thesis using nested_tally [OF c o] c
    by (simp add: known_event_def unknown_event_def)
qed

subsection \<open>Ranking\<close>

lemma first_seen_map_filter:
  "(first_seen (map g (filter P xs)) k < first_seen (map g (filter P xs)) k') =
   (length (takeWhile (\<lambda>x. \<not> (P x \<and> g x = k)) xs)
      < length (takeWhile (\<lambda>x. \<not> (P x \<and> g x = k')) xs))"
  by (induction xs) (auto simp: first_seen_def)

lemma unknown_vst_subevents_flat:
  "unknown_vst_subevents events =
     map (\<lambda>s. (int_value (sid s), int (length (sdata s))))
       (filter (\<lambda>s. type_is_int (sid s))
          (nested_entries events))"
proof -
  have "concat (map (\<lambda>e. case cls e of
                          VSTPluginEvent subs \<Rightarrow>
                            map (\<lambda>s. (int_value (sid s), int (length (sdata s))))
                              (filter (\<lambda>s. type_is_int (sid s)) subs)
                        | UnknownDataEvent \<Rightarrow> []
                        | KnownEvent \<Rightarrow> []) events) =
     map (\<lambda>s. (int_value (sid s), int (length (sdata s))))
       (filter (\<lambda>s. type_is_int (sid s))
          (concat (map (\<lambda>e. case cls e of VSTPluginEvent subs \<Rightarrow> subs
                                | UnknownDataEvent \<Rightarrow> [] | KnownEvent \<Rightarrow> []) events)))"
    by (induction events) (simp_all split: event_class.split)
  then show ?thesis
    by (simp add: unknown_vst_subevents_def vst_event_loop_eq nested_entries_def)
qed

text \<open>
  Claim C3. For every event sequence and every row limit, each of the four frequency
  tables is ranked: counts descend, and rows of equal count come in the order in which
  their keys were first met, the keys being taken in the order of the event sequence
  (class names; (id, name, class name) triples; ids of the unknown events; plain ids of
  the nested sub-events). Every row pairs a key with its number of occurrences. For the
  two tables of unknown ids, a key is met before another exactly when the first unknown
  event (the first nested entry with a plain id) that carries it comes before the first
  one that carries the other.
\<close>

theorem frequency_tables_ranked:
  "ranked (map class_name events) (most_common top_n (event_type_counts events))
   \<and> ranked (map (\<lambda>e. (id_value e, event_id_name e, class_name e)) events)
        (most_common top_n (top_level_id_counts events))
   \<and> ranked (map id_value (filter is_unknown events))
        (most_common top_n (unknown_top_level_id_counts events))
   \<and> ranked (map fst (unknown_vst_subevents events))
        (most_common top_n (unknown_vst_counts events))
   \<and> set (most_common top_n (event_type_counts events))
        \<subseteq> (\<lambda>k. (k, int (count_list (map class_name events) k))) ` set (map class_name events)
   \<and> set (most_common top_n (top_level_id_counts events))
        \<subseteq> (\<lambda>k. (k, int (count_list
                 (map (\<lambda>e. (id_value e, event_id_name e, class_name e)) events) k)))
            ` set (map (\<lambda>e. (id_value e, event_id_name e, class_name e)) events)
   \<and> set (most_common top_n (unknown_top_level_id_counts events))
        \<subseteq> (\<lambda>k. (k, int (count_list (map id_value (filter is_unknown events)) k)))
            ` set (map id_value (filter is_unknown events))
   \<and> set (most_common top_n (unknown_vst_counts events))
        \<subseteq> (\<lambda>k. (k, int (count_list (map fst (unknown_vst_subevents events)) k)))
            ` set (map fst (unknown_vst_subevents events))
   \<and> (first_seen (map id_value (filter is_unknown events)) k
          < first_seen (map id_value (filter is_unknown events)) k')
        = (length (takeWhile (\<lambda>e. \<not> (is_unknown e \<and> id_value e = k)) events)
            < length (takeWhile (\<lambda>e. \<not> (is_unknown e \<and> id_value e = k')) events))
   \<and> (first_seen (map fst (unknown_vst_subevents events)) j
          < first_seen (map fst (unknown_vst_subevents events)) j')
        = (length (takeWhile (\<lambda>s. \<not> (type_is_int (sid s) \<and> int_value (sid s) = j))
                     (nested_entries events))
            < length (takeWhile (\<lambda>s. \<not> (type_is_int (sid s) \<and> int_value (sid s) = j'))
                        (nested_entries events)))"
proof -
  have keys: "map fst (unknown_vst_subevents events) =
      map (\<lambda>s. int_value (sid s)) (filter (\<lambda>s. type_is_int (sid s)) (nested_entries events))"
    by (simp add: unknown_vst_subevents_flat comp_def)
  have vst: "(first_seen (map fst (unknown_vst_subevents events)) j
          < first_seen (map fst (unknown_vst_subevents events)) j')
        = (length (takeWhile (\<lambda>s. \<not> (type_is_int (sid s) \<and> int_value (sid s) = j))
                     (nested_entries events))
            < length (takeWhile (\<lambda>s. \<not> (type_is_int (sid s) \<and> int_value (sid s) = j'))
                        (nested_entries events)))"
    unfolding keys by (rule first_seen_map_filter)
  show ?thesis
    unfolding event_type_counts_def top_level_id_counts_def unknown_top_level_id_counts_def
      unknown_vst_counts_def unknown_top_level_def
    by (intro conjI most_common_ranked most_common_counts first_seen_map_filter vst)
qed

subsection \<open>The tables of the sample events\<close>

lemmas sample_defs = sample_events_def known_event_def unknown_event_def vst_event_def

lemma sample_type_counts:
  "event_type_counts sample_events =
     [(''U16Event'', 2), (''UnknownDataEvent'', 2), (''VSTPluginEvent'', 1)]"
  by (simp add: event_type_counts_def Counter_def sample_defs)



lemma sample_vst_subevents: "unknown_vst_subevents sample_events = [(7, 3), (9, 0), (7, 0)]"
  by (simp add: unknown_vst_subevents_def sample_defs)

lemma sample_vst_counts: "unknown_vst_counts sample_events = [(7, 2), (9, 1)]"
  by (simp add: unknown_vst_counts_def sample_vst_subevents Counter_def)

lemma most_common_eval:
  "most_common n c = take (nat n) (sort_key (\<lambda>item. - snd item) c)"
  by (simp add: most_common_def nlargest_def sorted_reverse_def)

text \<open>
  Claim C3 at \<open>sample_events\<close>: two class names tie at count 2 and appear in the
  order first seen.
\<close>

theorem frequency_tables_ranked_witness:
  "most_common 25 (event_type_counts sample_events) =
     [(''U16Event'', 2), (''UnknownDataEvent'', 2), (''VSTPluginEvent'', 1)]
   \<and> first_seen (map class_name sample_events) ''U16Event'' = 0
   \<and> first_seen (map class_name sample_events) ''UnknownDataEvent'' = 1
   \<and> ranked (map class_name sample_events)
        [(''U16Event'', 2), (''UnknownDataEvent'', 2), (''VSTPluginEvent'', 1)]
   \<and> most_common 1 (unknown_vst_counts sample_events) = [(7, 2)]
   \<and> ranked (map fst (unknown_vst_subevents sample_events)) [(7, 2)]"
proof -
  have t: "most_common 25 (event_type_counts sample_events) =
     [(''U16Event'', 2), (''UnknownDataEvent'', 2), (''VSTPluginEvent'', 1)]"
    by (simp add: sample_type_counts most_common_eval)
  have v: "most_common 1 (unknown_vst_counts sample_events) = [(7, 2)]"
    by (simp add: sample_vst_counts most_common_eval)
  have f: "first_seen (map class_name sample_events) ''U16Event'' = 0"
    "first_seen (map class_name sample_events) ''UnknownDataEvent'' = 1"
    by (simp_all add: first_seen_def sample_defs)
  show ?thesis
    using frequency_tables_ranked [of sample_events 25]
      frequency_tables_ranked [of sample_events 1]
    by (simp add: t v f)
qed

subsection \<open>The report is always produced\<close>

lemma parsed_pct_Inr:
  "parsed_pct events =
     Inr (if total_events events = 0 then 0
          else binary64 (binary64 (of_int (parsed_events events) / of_int (total_events events))
                 * 100))"
proof (cases "total_events events = 0")
  case True
  then show ?thesis by (simp add: parsed_pct_def pct_def)
next
  case False
  then have "0 < total_events events" by (simp add: total_events_def)
  from pct_value [OF parsed_events_range this] False show ?thesis
    by (simp add: parsed_pct_def)
qed

lemma percentages_defined:
  obtains p u where "parsed_pct events = Inr p" "unknown_pct events = Inr u"
  by (simp add: unknown_pct_def parsed_pct_Inr)

lemma report_of_events_Inr:
  assumes "parsed_pct events = Inr p" "unknown_pct events = Inr u"
  shows "report_of_events path events top_n =
     Inr (report_template path (total_events events) (parsed_events events) p
            (unknown_top_level events) u (unknown_vst_subevents events) top_n
            (type_rows events top_n) (id_rows events top_n)
            (unknown_top_level_rows events top_n) (unknown_vst_rows events top_n))"
  using assms by (simp add: report_of_events_def)

subsection \<open>Parts of the document\<close>

lemma sublist_skip: "sublist m ys \<Longrightarrow> sublist m (x @ ys)"
  by (metis append_assoc sublist_def)

lemma sublist_trans: "sublist xs ys \<Longrightarrow> sublist ys zs \<Longrightarrow> sublist xs zs"
  by (rule sublist_order.order_trans)

lemma sublist_here3: "sublist (a @ b @ c) (a @ b @ c @ rest)"
  by (metis append_assoc sublist_append_rightI)


lemma sublist_here6:
  "sublist (a @ b @ c @ d @ e @ f) (a @ b @ c @ d @ e @ f @ rest)"
  by (metis append_assoc sublist_append_rightI)

lemma sublist_here8:
  "sublist (a @ b @ c @ d @ e @ f @ g @ h) (a @ b @ c @ d @ e @ f @ g @ h @ rest)"
  by (metis append_assoc sublist_append_rightI)

lemma file_line:
  \<open>sublist (''<p><strong>File:</strong> '' @ html_escape path @ ''</p>\<newline>'')
     (report_template path t p pp un up vs n r1 r2 r3 r4)\<close>
  unfolding report_template_def
  by (rule sublist_here3 | rule sublist_skip)+



lemma top_level_card:
  \<open>sublist
     (''    <div>Unknown top-level events</div>\<newline>'' @
      ''    <div class="metric '' @ (if un \<noteq> [] then ''bad'' else ''ok'') @ ''">'' @
        str_int (int (length un)) @ '' ('' @ format_2f up @
        ''%)</div>\<newline>'')
     (report_template path t p pp un up vs n r1 r2 r3 r4)\<close>
  unfolding report_template_def
  by (rule sublist_here8 | rule sublist_skip)+

lemma vst_card:
  \<open>sublist
     (''    <div>Unknown VST sub-events</div>\<newline>'' @
      ''    <div class="metric '' @ (if vs \<noteq> [] then ''warn'' else ''ok'') @
        ''">'' @ str_int (int (length vs)) @ ''</div>\<newline>'')
     (report_template path t p pp un up vs n r1 r2 r3 r4)\<close>
  unfolding report_template_def
  by (rule sublist_here6 | rule sublist_skip)+

lemma type_table:
  \<open>sublist
     (''  <h2>Top Event Types (Top '' @ str_int n @ '')</h2>\<newline>'' @
      ''  <table>\<newline>'' @
      ''    <thead><tr><th>Event Type</th><th>Count</th></tr></thead>\<newline>'' @
      ''    <tbody>'' @ r1 @ ''</tbody>\<newline>'')
     (report_template path t p pp un up vs n r1 r2 r3 r4)\<close>
  unfolding report_template_def
  by (rule sublist_here8 | rule sublist_skip)+

lemma id_table:
  \<open>sublist
     (''  <h2>Top Event IDs (Top '' @ str_int n @ '')</h2>\<newline>'' @
      ''  <table>\<newline>'' @
      ''    <thead><tr><th>ID</th><th>Name</th><th>Parsed As</th><th>Count</th></tr></thead>\<newline>'' @
      ''    <tbody>'' @ r2 @ ''</tbody>\<newline>'')
     (report_template path t p pp un up vs n r1 r2 r3 r4)\<close>
  unfolding report_template_def
  by (rule sublist_here8 | rule sublist_skip)+

lemma unknown_top_level_table:
  \<open>sublist
     (''  <h2>Unknown Top-level Event IDs (Top '' @ str_int n @ '')</h2>\<newline>'' @
      ''  <table>\<newline>'' @
      ''    <thead><tr><th>ID</th><th>Count</th></tr></thead>\<newline>'' @
      ''    <tbody>'' @ r3 @ ''</tbody>\<newline>'')
     (report_template path t p pp un up vs n r1 r2 r3 r4)\<close>
  unfolding report_template_def
  by (rule sublist_here8 | rule sublist_skip)+

lemma unknown_vst_table:
  \<open>sublist
     (''  <h2>Unknown VST Sub-event IDs (Top '' @ str_int n @ '')</h2>\<newline>'' @
      ''  <table>\<newline>'' @
      ''    <thead><tr><th>Sub-event ID</th><th>Count</th></tr></thead>\<newline>'' @
      ''    <tbody>'' @ r4 @ ''</tbody>\<newline>'')
     (report_template path t p pp un up vs n r1 r2 r3 r4)\<close>
  unfolding report_template_def
  by (rule sublist_here8 | rule sublist_skip)+

subsection \<open>Rows and placeholders\<close>


lemma most_common_Nil: "most_common top_n [] = []"
  by (simp add: most_common_def nlargest_def sorted_reverse_def)

lemma Counter_Nil: "Counter [] = []"
  by (simp add: Counter_def)

lemma render_rows_Nil:
  "render_type_rows [] = ''<tr><td colspan='2'>No events</td></tr>''"
  "render_id_rows [] = ''<tr><td colspan='4'>No events</td></tr>''"
  "render_unknown_top_level_rows [] = ''<tr><td colspan='2'>None</td></tr>''"
  "render_unknown_vst_rows [] = ''<tr><td colspan='2'>None</td></tr>''"
  by (simp_all add: render_type_rows_def render_id_rows_def render_unknown_top_level_rows_def
      render_unknown_vst_rows_def)

lemma join_map_prefix:
  assumes "\<And>x. \<exists>r. f x = p @ r" "xs \<noteq> []"
  shows "\<exists>r. join sep (map f xs) = p @ r"
proof (cases xs)
  case Nil
  with assms(2) show ?thesis by simp
next
  case (Cons x rest)
  from assms(1) [of x] obtain r where r: "f x = p @ r" by blast
  show ?thesis
  proof (cases rest)
    case Nil
    with Cons r show ?thesis by simp
  next
    case (Cons y ys)
    with \<open>xs = x # rest\<close> r show ?thesis by simp
  qed
qed

lemma row_prefixes:
  "\<exists>r. type_row x = ''<tr><td>'' @ r"
  "\<exists>r. id_row y = ''<tr><td>'' @ r"
  "\<exists>r. unknown_top_level_row z = ''<tr><td>'' @ r"
  "\<exists>r. unknown_vst_row z = ''<tr><td>'' @ r"
  by (simp_all add: type_row_def id_row_def unknown_top_level_row_def unknown_vst_row_def
      split: prod.split)

lemma prefix_not_placeholder:
  "''<tr><td>'' @ r \<noteq> []"
  "''<tr><td>'' @ r \<noteq> ''<tr><td colspan='2'>No events</td></tr>''"
  "''<tr><td>'' @ r \<noteq> ''<tr><td colspan='4'>No events</td></tr>''"
  "''<tr><td>'' @ r \<noteq> ''<tr><td colspan='2'>None</td></tr>''"
  by simp_all

lemma render_type_rows_placeholder:
  "(render_type_rows table = ''<tr><td colspan='2'>No events</td></tr>'') = (table = [])"
proof (cases "table = []")
  case True
  then show ?thesis by (simp add: render_rows_Nil)
next
  case False
  from join_map_prefix [of type_row, OF row_prefixes(1) False]
  obtain r where "join ''\<newline>'' (map type_row table) = ''<tr><td>'' @ r" by blast
  then show ?thesis using False prefix_not_placeholder [of r]
    by (simp add: render_type_rows_def del: append.simps)
qed

lemma render_id_rows_placeholder:
  "(render_id_rows table = ''<tr><td colspan='4'>No events</td></tr>'') = (table = [])"
proof (cases "table = []")
  case True
  then show ?thesis by (simp add: render_rows_Nil)
next
  case False
  from join_map_prefix [of id_row, OF row_prefixes(2) False]
  obtain r where "join ''\<newline>'' (map id_row table) = ''<tr><td>'' @ r" by blast
  then show ?thesis using False prefix_not_placeholder [of r]
    by (simp add: render_id_rows_def del: append.simps)
qed

lemma render_unknown_top_level_rows_placeholder:
  "(render_unknown_top_level_rows table = ''<tr><td colspan='2'>None</td></tr>'') = (table = [])"
proof (cases "table = []")
  case True
  then show ?thesis by (simp add: render_rows_Nil)
next
  case False
  from join_map_prefix [of unknown_top_level_row, OF row_prefixes(3) False]
  obtain r where "join ''\<newline>'' (map unknown_top_level_row table) = ''<tr><td>'' @ r" by blast
  then show ?thesis using False prefix_not_placeholder [of r]
    by (simp add: render_unknown_top_level_rows_def del: append.simps)
qed

lemma render_unknown_vst_rows_placeholder:
  "(render_unknown_vst_rows table = ''<tr><td colspan='2'>None</td></tr>'') = (table = [])"
proof (cases "table = []")
  case True
  then show ?thesis by (simp add: render_rows_Nil)
next
  case False
  from join_map_prefix [of unknown_vst_row, OF row_prefixes(4) False]
  obtain r where "join ''\<newline>'' (map unknown_vst_row table) = ''<tr><td>'' @ r" by blast
  then show ?thesis using False prefix_not_placeholder [of r]
    by (simp add: render_unknown_vst_rows_def del: append.simps)
qed

lemma empty_aggregates:
  "total_events [] = 0" "parsed_events [] = 0" "unknown_top_level [] = []"
  "unknown_vst_subevents [] = []" "event_type_counts [] = []" "top_level_id_counts [] = []"
  "unknown_top_level_id_counts [] = []" "unknown_vst_counts [] = []"
  "parsed_pct [] = Inr 0" "unknown_pct [] = Inr 0"
  by (simp_all add: total_events_def parsed_events_def unknown_top_level_def
      unknown_vst_subevents_def event_type_counts_def top_level_id_counts_def
      unknown_top_level_id_counts_def unknown_vst_counts_def Counter_Nil parsed_pct_def
      unknown_pct_def pct_def)

text \<open>
  Claim C7. For the empty event sequence each of the four table bodies is its single
  placeholder row, \<open>No events\<close> for the two tables over all events and \<open>None\<close>
  for the two tables of unknown ids, and the document is the template filled with zero
  counts and these four rows. For any event sequence a table body is the placeholder
  row exactly when \<open>most_common(top_n)\<close> has no entry to show; a table body is never
  empty.
\<close>

theorem empty_tables_placeholder:
  \<open>(\<exists>doc. report_of_events path [] top_n = Inr doc
        \<and> sublist
          (''  <h2>Top Event Types (Top '' @ str_int top_n @ '')</h2>\<newline>'' @
           ''  <table>\<newline>'' @
           ''    <thead><tr><th>Event Type</th><th>Count</th></tr></thead>\<newline>'' @
           ''    <tbody>'' @ ''<tr><td colspan='2'>No events</td></tr>'' @ ''</tbody>\<newline>'') doc
        \<and> sublist
          (''  <h2>Top Event IDs (Top '' @ str_int top_n @ '')</h2>\<newline>'' @
           ''  <table>\<newline>'' @
           ''    <thead><tr><th>ID</th><th>Name</th><th>Parsed As</th><th>Count</th></tr></thead>\<newline>'' @
           ''    <tbody>'' @ ''<tr><td colspan='4'>No events</td></tr>'' @ ''</tbody>\<newline>'') doc
        \<and> sublist
          (''  <h2>Unknown Top-level Event IDs (Top '' @ str_int top_n @ '')</h2>\<newline>'' @
           ''  <table>\<newline>'' @
           ''    <thead><tr><th>ID</th><th>Count</th></tr></thead>\<newline>'' @
           ''    <tbody>'' @ ''<tr><td colspan='2'>None</td></tr>'' @ ''</tbody>\<newline>'') doc
        \<and> sublist
          (''  <h2>Unknown VST Sub-event IDs (Top '' @ str_int top_n @ '')</h2>\<newline>'' @
           ''  <table>\<newline>'' @
           ''    <thead><tr><th>Sub-event ID</th><th>Count</th></tr></thead>\<newline>'' @
           ''    <tbody>'' @ ''<tr><td colspan='2'>None</td></tr>'' @ ''</tbody>\<newline>'') doc)
   \<and> (\<exists>doc. report_of_events path events top_n = Inr doc
        \<and> sublist
          (''  <h2>Top Event Types (Top '' @ str_int top_n @ '')</h2>\<newline>'' @
           ''  <table>\<newline>'' @
           ''    <thead><tr><th>Event Type</th><th>Count</th></tr></thead>\<newline>'' @
           ''    <tbody>'' @ type_rows events top_n @ ''</tbody>\<newline>'') doc
        \<and> sublist
          (''  <h2>Top Event IDs (Top '' @ str_int top_n @ '')</h2>\<newline>'' @
           ''  <table>\<newline>'' @
           ''    <thead><tr><th>ID</th><th>Name</th><th>Parsed As</th><th>Count</th></tr></thead>\<newline>'' @
           ''    <tbody>'' @ id_rows events top_n @ ''</tbody>\<newline>'') doc
        \<and> sublist
          (''  <h2>Unknown Top-level Event IDs (Top '' @ str_int top_n @ '')</h2>\<newline>'' @
           ''  <table>\<newline>'' @
           ''    <thead><tr><th>ID</th><th>Count</th></tr></thead>\<newline>'' @
           ''    <tbody>'' @ unknown_top_level_rows events top_n @ ''</tbody>\<newline>'') doc
        \<and> sublist
          (''  <h2>Unknown VST Sub-event IDs (Top '' @ str_int top_n @ '')</h2>\<newline>'' @
           ''  <table>\<newline>'' @
           ''    <thead><tr><th>Sub-event ID</th><th>Count</th></tr></thead>\<newline>'' @
           ''    <tbody>'' @ unknown_vst_rows events top_n @ ''</tbody>\<newline>'') doc)
   \<and> (type_rows events top_n = ''<tr><td colspan='2'>No events</td></tr>'')
        = (most_common top_n (event_type_counts events) = [])
   \<and> (id_rows events top_n = ''<tr><td colspan='4'>No events</td></tr>'')
        = (most_common top_n (top_level_id_counts events) = [])
   \<and> (unknown_top_level_rows events top_n = ''<tr><td colspan='2'>None</td></tr>'')
        = (most_common top_n (unknown_top_level_id_counts events) = [])
   \<and> (unknown_vst_rows events top_n = ''<tr><td colspan='2'>None</td></tr>'')
        = (most_common top_n (unknown_vst_counts events) = [])
   \<and> type_rows [] top_n = ''<tr><td colspan='2'>No events</td></tr>''
   \<and> id_rows [] top_n = ''<tr><td colspan='4'>No events</td></tr>''
   \<and> unknown_top_level_rows [] top_n = ''<tr><td colspan='2'>None</td></tr>''
   \<and> unknown_vst_rows [] top_n = ''<tr><td colspan='2'>None</td></tr>''
   \<and> report_of_events path [] top_n =
        Inr (report_template path 0 0 0 [] 0 [] top_n
               ''<tr><td colspan='2'>No events</td></tr>''
               ''<tr><td colspan='4'>No events</td></tr>''
               ''<tr><td colspan='2'>None</td></tr>''
               ''<tr><td colspan='2'>None</td></tr>'')\<close>
proof -
  have rows: "type_rows [] top_n = ''<tr><td colspan='2'>No events</td></tr>''"
    "id_rows [] top_n = ''<tr><td colspan='4'>No events</td></tr>''"
    "unknown_top_level_rows [] top_n = ''<tr><td colspan='2'>None</td></tr>''"
    "unknown_vst_rows [] top_n = ''<tr><td colspan='2'>None</td></tr>''"
    by (simp_all only: type_rows_def id_rows_def unknown_top_level_rows_def
        unknown_vst_rows_def empty_aggregates most_common_Nil render_rows_Nil)
  have doc: "report_of_events path [] top_n =
        Inr (report_template path 0 0 0 [] 0 [] top_n
               ''<tr><td colspan='2'>No events</td></tr>''
               ''<tr><td colspan='4'>No events</td></tr>''
               ''<tr><td colspan='2'>None</td></tr>''
               ''<tr><td colspan='2'>None</td></tr>'')"
    by (simp only: report_of_events_Inr [OF empty_aggregates(9,10)] empty_aggregates rows)
  have iffs: "(type_rows events top_n = ''<tr><td colspan='2'>No events</td></tr>'')
        = (most_common top_n (event_type_counts events) = [])"
    "(id_rows events top_n = ''<tr><td colspan='4'>No events</td></tr>'')
        = (most_common top_n (top_level_id_counts events) = [])"
    "(unknown_top_level_rows events top_n = ''<tr><td colspan='2'>None</td></tr>'')
        = (most_common top_n (unknown_top_level_id_counts events) = [])"
    "(unknown_vst_rows events top_n = ''<tr><td colspan='2'>None</td></tr>'')
        = (most_common top_n (unknown_vst_counts events) = [])"
    by (simp_all only: type_rows_def id_rows_def unknown_top_level_rows_def
        unknown_vst_rows_def render_type_rows_placeholder render_id_rows_placeholder
        render_unknown_top_level_rows_placeholder render_unknown_vst_rows_placeholder)
  obtain p u where pu: "parsed_pct events = Inr p" "unknown_pct events = Inr u"
    by (rule percentages_defined)
  note gen = report_of_events_Inr [OF pu, of path top_n]
  have empty: \<open>\<exists>doc. report_of_events path [] top_n = Inr doc
        \<and> sublist
          (''  <h2>Top Event Types (Top '' @ str_int top_n @ '')</h2>\<newline>'' @
           ''  <table>\<newline>'' @
           ''    <thead><tr><th>Event Type</th><th>Count</th></tr></thead>\<newline>'' @
           ''    <tbody>'' @ ''<tr><td colspan='2'>No events</td></tr>'' @ ''</tbody>\<newline>'') doc
        \<and> sublist
          (''  <h2>Top Event IDs (Top '' @ str_int top_n @ '')</h2>\<newline>'' @
           ''  <table>\<newline>'' @
           ''    <thead><tr><th>ID</th><th>Name</th><th>Parsed As</th><th>Count</th></tr></thead>\<newline>'' @
           ''    <tbody>'' @ ''<tr><td colspan='4'>No events</td></tr>'' @ ''</tbody>\<newline>'') doc
        \<and> sublist
          (''  <h2>Unknown Top-level Event IDs (Top '' @ str_int top_n @ '')</h2>\<newline>'' @
           ''  <table>\<newline>'' @
           ''    <thead><tr><th>ID</th><th>Count</th></tr></thead>\<newline>'' @
           ''    <tbody>'' @ ''<tr><td colspan='2'>None</td></tr>'' @ ''</tbody>\<newline>'') doc
        \<and> sublist
          (''  <h2>Unknown VST Sub-event IDs (Top '' @ str_int top_n @ '')</h2>\<newline>'' @
           ''  <table>\<newline>'' @
           ''    <thead><tr><th>Sub-event ID</th><th>Count</th></tr></thead>\<newline>'' @
           ''    <tbody>'' @ ''<tr><td colspan='2'>None</td></tr>'' @ ''</tbody>\<newline>'') doc\<close>
    by (intro exI conjI, rule doc, rule type_table, rule id_table,
        rule unknown_top_level_table, rule unknown_vst_table)
  have general: \<open>\<exists>doc. report_of_events path events top_n = Inr doc
        \<and> sublist
          (''  <h2>Top Event Types (Top '' @ str_int top_n @ '')</h2>\<newline>'' @
           ''  <table>\<newline>'' @
           ''    <thead><tr><th>Event Type</th><th>Count</th></tr></thead>\<newline>'' @
           ''    <tbody>'' @ type_rows events top_n @ ''</tbody>\<newline>'') doc
        \<and> sublist
          (''  <h2>Top Event IDs (Top '' @ str_int top_n @ '')</h2>\<newline>'' @
           ''  <table>\<newline>'' @
           ''    <thead><tr><th>ID</th><th>Name</th><th>Parsed As</th><th>Count</th></tr></thead>\<newline>'' @
           ''    <tbody>'' @ id_rows events top_n @ ''</tbody>\<newline>'') doc
        \<and> sublist
          (''  <h2>Unknown Top-level Event IDs (Top '' @ str_int top_n @ '')</h2>\<newline>'' @
           ''  <table>\<newline>'' @
           ''    <thead><tr><th>ID</th><th>Count</th></tr></thead>\<newline>'' @
           ''    <tbody>'' @ unknown_top_level_rows events top_n @ ''</tbody>\<newline>'') doc
        \<and> sublist
          (''  <h2>Unknown VST Sub-event IDs (Top '' @ str_int top_n @ '')</h2>\<newline>'' @
           ''  <table>\<newline>'' @
           ''    <thead><tr><th>Sub-event ID</th><th>Count</th></tr></thead>\<newline>'' @
           ''    <tbody>'' @ unknown_vst_rows events top_n @ ''</tbody>\<newline>'') doc\<close>
    by (intro exI conjI, rule gen, rule type_table, rule id_table,
        rule unknown_top_level_table, rule unknown_vst_table)
  from empty general iffs rows doc show ?thesis by (intro conjI)
qed


subsection \<open>Row limits\<close>

lemma sample_totals:
  "total_events sample_events = 5" "parsed_events sample_events = 3"
  "length (unknown_top_level sample_events) = 2"
  by (simp_all add: total_events_def parsed_events_def unknown_top_level_def is_unknown_def
      sample_defs)


text \<open>
  Claim C4. For every event sequence and row limit, each table shown is the first
  \<open>top_n\<close> entries of the whole ranked table \<open>most_common()\<close>, so order and counts of
  the rows kept are those of the whole table. When \<open>top_n\<close> is at least the number of
  distinct keys, every distinct key appears exactly once. The two percentages do not
  depend on \<open>top_n\<close>: one pair of values serves the document for every row limit.
\<close>

theorem truncation_is_prefix:
  "most_common top_n (event_type_counts events)
     = take (nat top_n) (most_common_all (event_type_counts events))
   \<and> most_common top_n (top_level_id_counts events)
     = take (nat top_n) (most_common_all (top_level_id_counts events))
   \<and> most_common top_n (unknown_top_level_id_counts events)
     = take (nat top_n) (most_common_all (unknown_top_level_id_counts events))
   \<and> most_common top_n (unknown_vst_counts events)
     = take (nat top_n) (most_common_all (unknown_vst_counts events))
   \<and> (int (card (set (map class_name events))) \<le> top_n \<longrightarrow>
        distinct (map fst (most_common top_n (event_type_counts events)))
        \<and> set (map fst (most_common top_n (event_type_counts events)))
            = set (map class_name events))
   \<and> (int (card (set (map (\<lambda>e. (id_value e, event_id_name e, class_name e)) events))) \<le> top_n \<longrightarrow>
        distinct (map fst (most_common top_n (top_level_id_counts events)))
        \<and> set (map fst (most_common top_n (top_level_id_counts events)))
            = set (map (\<lambda>e. (id_value e, event_id_name e, class_name e)) events))
   \<and> (int (card (set (map id_value (filter is_unknown events)))) \<le> top_n \<longrightarrow>
        distinct (map fst (most_common top_n (unknown_top_level_id_counts events)))
        \<and> set (map fst (most_common top_n (unknown_top_level_id_counts events)))
            = set (map id_value (filter is_unknown events)))
   \<and> (int (card (set (map fst (unknown_vst_subevents events)))) \<le> top_n \<longrightarrow>
        distinct (map fst (most_common top_n (unknown_vst_counts events)))
        \<and> set (map fst (most_common top_n (unknown_vst_counts events)))
            = set (map fst (unknown_vst_subevents events)))
   \<and> (\<exists>p u. parsed_pct events = Inr p \<and> unknown_pct events = Inr u
        \<and> (\<forall>n. report_of_events path events n =
              Inr (report_template path (total_events events) (parsed_events events) p
                     (unknown_top_level events) u (unknown_vst_subevents events) n
                     (render_type_rows
                        (take (nat n) (most_common_all (event_type_counts events))))
                     (render_id_rows
                        (take (nat n) (most_common_all (top_level_id_counts events))))
                     (render_unknown_top_level_rows
                        (take (nat n) (most_common_all (unknown_top_level_id_counts events))))
                     (render_unknown_vst_rows
                        (take (nat n) (most_common_all (unknown_vst_counts events)))))))"
proof -
  have whole: "int (card (set ks)) \<le> top_n \<Longrightarrow>
      distinct (map fst (most_common top_n (Counter ks)))
      \<and> set (map fst (most_common top_n (Counter ks))) = set ks" for ks :: "'a list"
    by (simp only: most_common_whole most_common_all_keys simp_thms)
  obtain p u where pu: "parsed_pct events = Inr p" "unknown_pct events = Inr u"
    by (rule percentages_defined)
  have doc: "report_of_events path events n =
              Inr (report_template path (total_events events) (parsed_events events) p
                     (unknown_top_level events) u (unknown_vst_subevents events) n
                     (render_type_rows
                        (take (nat n) (most_common_all (event_type_counts events))))
                     (render_id_rows
                        (take (nat n) (most_common_all (top_level_id_counts events))))
                     (render_unknown_top_level_rows
                        (take (nat n) (most_common_all (unknown_top_level_id_counts events))))
                     (render_unknown_vst_rows
                        (take (nat n) (most_common_all (unknown_vst_counts events)))))" for n
    by (simp only: report_of_events_Inr [OF pu] type_rows_def id_rows_def
        unknown_top_level_rows_def unknown_vst_rows_def most_common_take)
  have last: "\<exists>p u. parsed_pct events = Inr p \<and> unknown_pct events = Inr u
        \<and> (\<forall>n. report_of_events path events n =
              Inr (report_template path (total_events events) (parsed_events events) p
                     (unknown_top_level events) u (unknown_vst_subevents events) n
                     (render_type_rows
                        (take (nat n) (most_common_all (event_type_counts events))))
                     (render_id_rows
                        (take (nat n) (most_common_all (top_level_id_counts events))))
                     (render_unknown_top_level_rows
                        (take (nat n) (most_common_all (unknown_top_level_id_counts events))))
                     (render_unknown_vst_rows
                        (take (nat n) (most_common_all (unknown_vst_counts events))))))"
    using pu doc by blast
  show ?thesis
    apply (intro conjI impI most_common_take last)
    unfolding event_type_counts_def top_level_id_counts_def unknown_top_level_id_counts_def
      unknown_vst_counts_def unknown_top_level_def
    using whole by blast+
qed

text \<open>
  Claim C4 at \<open>sample_events\<close>, where no table has more than three distinct keys:
  row limits 3 and 2.
\<close>

theorem truncation_is_prefix_witness:
  "int (card (set (map class_name sample_events))) \<le> 3
   \<and> most_common_all (event_type_counts sample_events)
       = [(''U16Event'', 2), (''UnknownDataEvent'', 2), (''VSTPluginEvent'', 1)]
   \<and> most_common 3 (event_type_counts sample_events)
       = [(''U16Event'', 2), (''UnknownDataEvent'', 2), (''VSTPluginEvent'', 1)]
   \<and> most_common 2 (event_type_counts sample_events)
       = [(''U16Event'', 2), (''UnknownDataEvent'', 2)]
   \<and> distinct (map fst (most_common 3 (event_type_counts sample_events)))
   \<and> set (map fst (most_common 3 (event_type_counts sample_events)))
       = set (map class_name sample_events)
   \<and> int (card (set (map (\<lambda>e. (id_value e, event_id_name e, class_name e)) sample_events))) \<le> 3
   \<and> distinct (map fst (most_common 3 (top_level_id_counts sample_events)))
   \<and> int (card (set (map id_value (filter is_unknown sample_events)))) \<le> 3
   \<and> set (map fst (most_common 3 (unknown_top_level_id_counts sample_events)))
       = set (map id_value (filter is_unknown sample_events))
   \<and> int (card (set (map fst (unknown_vst_subevents sample_events)))) \<le> 3
   \<and> set (map fst (most_common 3 (unknown_vst_counts sample_events)))
       = set (map fst (unknown_vst_subevents sample_events))"
proof -
  have c: "int (card (set (map class_name sample_events))) \<le> 3"
    by (simp only: length_remdups_card_conv [symmetric]) (simp add: sample_defs)
  have ci: "int (card (set (map (\<lambda>e. (id_value e, event_id_name e, class_name e))
      sample_events))) \<le> 3"
    by (simp only: length_remdups_card_conv [symmetric]) (simp add: sample_defs)
  have cu: "int (card (set (map id_value (filter is_unknown sample_events)))) \<le> 3"
    by (simp only: length_remdups_card_conv [symmetric]) (simp add: sample_defs is_unknown_def)
  have cv: "int (card (set (map fst (unknown_vst_subevents sample_events)))) \<le> 3"
    by (simp only: length_remdups_card_conv [symmetric]) (simp add: sample_vst_subevents)
  have a: "most_common_all (event_type_counts sample_events)
       = [(''U16Event'', 2), (''UnknownDataEvent'', 2), (''VSTPluginEvent'', 1)]"
    by (simp add: sample_type_counts most_common_all_def sorted_reverse_def)
  note t3 = truncation_is_prefix [of 3 sample_events "[]"]
  note t2 = truncation_is_prefix [of 2 sample_events "[]"]
  have m3: "most_common 3 (event_type_counts sample_events)
       = [(''U16Event'', 2), (''UnknownDataEvent'', 2), (''VSTPluginEvent'', 1)]"
    using t3 [THEN conjunct1] by (simp add: a)
  have m2: "most_common 2 (event_type_counts sample_events)
       = [(''U16Event'', 2), (''UnknownDataEvent'', 2)]"
    using t2 [THEN conjunct1] by (simp add: a)
  from t3 c ci cu cv have k:
    "distinct (map fst (most_common 3 (event_type_counts sample_events)))"
    "set (map fst (most_common 3 (event_type_counts sample_events)))
         = set (map class_name sample_events)"
    "distinct (map fst (most_common 3 (top_level_id_counts sample_events)))"
    "set (map fst (most_common 3 (unknown_top_level_id_counts sample_events)))
       = set (map id_value (filter is_unknown sample_events))"
    "set (map fst (most_common 3 (unknown_vst_counts sample_events)))
       = set (map fst (unknown_vst_subevents sample_events))"
    by blast+
  from c ci cu cv a m3 m2 k show ?thesis by blast
qed

subsection \<open>Escaping\<close>

lemma replace_char_Nil: "replace_char c rep [] = []"
  by (simp add: replace_char_def)

lemma replace_char_append:
  "replace_char c rep (xs @ ys) = replace_char c rep xs @ replace_char c rep ys"
  by (simp add: replace_char_def)

lemma replace_char_concat_map:
  "replace_char c rep (concat (map f s)) = concat (map (\<lambda>d. replace_char c rep (f d)) s)"
  by (induction s) (simp_all add: replace_char_Nil replace_char_append)

lemma replace_char_single:
  "replace_char c rep s = concat (map (\<lambda>d. if d = c then rep else [d]) s)"
  by (simp add: replace_char_def)

lemma escape_char_steps:
  \<open>replace_char CHR 0x27 ''&#x27;''
     (replace_char CHR ''"'' ''&quot;''
       (replace_char CHR ''>'' ''&gt;''
         (replace_char CHR ''<'' ''&lt;'' (if d = CHR ''&'' then ''&amp;'' else [d]))))
   = escape_char d\<close>
  by (simp add: replace_char_def escape_char_def)

lemma html_escape_chars: "html_escape s = concat (map escape_char s)"
proof -
  have "html_escape s =
      concat (map (\<lambda>d. replace_char CHR 0x27 ''&#x27;''
        (replace_char (CHR 0x22) ''&quot;''
          (replace_char CHR ''>'' ''&gt;''
            (replace_char CHR ''<'' ''&lt;'' (if d = CHR ''&'' then ''&amp;'' else [d]))))) s)"
    unfolding html_escape_def Let_def
    by (simp only: replace_char_single [of "CHR ''&''"] replace_char_concat_map)
  then show ?thesis by (simp only: escape_char_steps)
qed

lemma html_escape_Nil: "html_escape [] = []"
  by (simp add: html_escape_chars)

lemma escaped_escape_char: "escaped (escape_char c @ rest) = escaped rest"
  by (simp add: escape_char_def starts_reference_def is_markup_def)

lemma escaped_html_escape: "escaped (html_escape s)"
  unfolding html_escape_chars by (induction s) (simp_all add: escaped_escape_char)

lemma markup_chars_append: "markup_chars (xs @ ys) = markup_chars xs @ markup_chars ys"
  by (simp add: markup_chars_def)

lemma markup_chars_escape_char: "markup_chars (escape_char c) = []"
  by (simp add: markup_chars_def escape_char_def is_markup_def)

lemma markup_chars_html_escape: "markup_chars (html_escape s) = []"
  unfolding html_escape_chars
proof (induction s)
  case Nil
  show ?case by (simp add: markup_chars_def)
next
  case (Cons c s)
  then show ?case by (simp add: markup_chars_append markup_chars_escape_char)
qed

lemma markup_chars_Nil: "markup_chars [] = []"
  by (simp add: markup_chars_def)

lemma markup_chars_type_row:
  "markup_chars (type_row (name, count)) = markup_chars (type_row ([], count))"
  by (simp only: type_row_def prod.case markup_chars_append markup_chars_html_escape
      html_escape_Nil markup_chars_Nil)

lemma markup_chars_id_row:
  "markup_chars (id_row ((i, name, ty), count)) = markup_chars (id_row ((i, [], []), count))"
  by (simp only: id_row_def prod.case markup_chars_append markup_chars_html_escape
      html_escape_Nil markup_chars_Nil)

lemma markup_chars_join:
  assumes "\<And>x. markup_chars (f x) = markup_chars (g x)"
  shows "markup_chars (join sep (map f xs)) = markup_chars (join sep (map g xs))"
proof (induction xs)
  case Nil
  show ?case by simp
next
  case (Cons x xs)
  then show ?case by (cases xs) (simp_all add: markup_chars_append assms)
qed

lemma join_rows_empty:
  assumes "\<And>x. \<exists>r. f x = ''<tr><td>'' @ r"
  shows "(join sep (map f xs) = []) = (xs = [])"
proof (cases "xs = []")
  case True
  then show ?thesis by simp
next
  case False
  from join_map_prefix [of f, OF assms False]
  obtain r where "join sep (map f xs) = ''<tr><td>'' @ r" by blast
  with False show ?thesis by simp
qed

lemma render_rows_nonempty:
  "table \<noteq> [] \<Longrightarrow> render_type_rows table = join ''\<newline>'' (map type_row table)"
  "table' \<noteq> [] \<Longrightarrow> render_id_rows table' = join ''\<newline>'' (map id_row table')"
  by (simp_all only: render_type_rows_def render_id_rows_def Let_def
      join_rows_empty [of type_row, OF row_prefixes(1)]
      join_rows_empty [of id_row, OF row_prefixes(2)] if_False)

lemma markup_chars_render_type_rows:
  "markup_chars (render_type_rows table) =
   markup_chars (render_type_rows (map (\<lambda>(name, count). ([], count)) table))"
proof (cases "table = []")
  case True
  then show ?thesis by simp
next
  case False
  then have ne: "map (\<lambda>(name, count). ([]::string, count::int)) table \<noteq> []" by simp
  have row: "markup_chars (type_row x) =
      markup_chars (type_row ((\<lambda>(name, count). ([], count)) x))" for x
  proof (cases x)
    case (Pair name count)
    show ?thesis unfolding Pair prod.case by (rule markup_chars_type_row)
  qed
  have "markup_chars (join ''\<newline>'' (map type_row table)) =
      markup_chars (join ''\<newline>''
        (map (\<lambda>x. type_row ((\<lambda>(name, count). ([], count)) x)) table))"
    by (rule markup_chars_join) (rule row)
  then show ?thesis
    by (simp only: render_rows_nonempty(1) [OF False] render_rows_nonempty(1) [OF ne]
        map_map comp_def)
qed

lemma markup_chars_render_id_rows:
  "markup_chars (render_id_rows table) =
   markup_chars (render_id_rows (map (\<lambda>((i, name, ty), count). ((i, [], []), count)) table))"
proof (cases "table = []")
  case True
  then show ?thesis by simp
next
  case False
  then have ne: "map (\<lambda>((i, name, ty), count). ((i::int, []::string, []::string), count::int))
      table \<noteq> []" by simp
  have row: "markup_chars (id_row x) =
      markup_chars (id_row ((\<lambda>((i, name, ty), count). ((i, [], []), count)) x))" for x
  proof (cases x)
    case (Pair key count)
    obtain i name ty where key: "key = (i, name, ty)" by (cases key)
    show ?thesis unfolding Pair key prod.case by (rule markup_chars_id_row)
  qed
  have "markup_chars (join ''\<newline>'' (map id_row table)) =
      markup_chars (join ''\<newline>''
        (map (\<lambda>x. id_row ((\<lambda>((i, name, ty), count). ((i, [], []), count)) x)) table))"
    by (rule markup_chars_join) (rule row)
  then show ?thesis
    by (simp only: render_rows_nonempty(2) [OF False] render_rows_nonempty(2) [OF ne]
        map_map comp_def)
qed

lemma markup_chars_template:
  assumes "markup_chars r1 = markup_chars r1'" "markup_chars r2 = markup_chars r2'"
  shows "markup_chars (report_template path t p pp un up vs n r1 r2 r3 r4) =
         markup_chars (report_template [] t p pp un up vs n r1' r2' r3 r4)"
  unfolding report_template_def
  by (simp only: markup_chars_append markup_chars_html_escape html_escape_Nil
      markup_chars_Nil assms)

lemma take_append_keep:
  assumes "take (length r) cs = r"
  shows "take (length r) (cs @ b) = r"
proof -
  have "length (take (length r) cs) = length r" by (simp only: assms)
  then have "length r \<le> length cs" by simp
  then show ?thesis using assms by simp
qed

lemma starts_reference_append: "starts_reference cs \<Longrightarrow> starts_reference (cs @ b)"
  unfolding starts_reference_def list_ex_iff
  by (blast intro: take_append_keep)

lemma ampersands_escaped_append:
  "ampersands_escaped a \<Longrightarrow> ampersands_escaped b \<Longrightarrow> ampersands_escaped (a @ b)"
  by (induction a) (simp_all add: starts_reference_append)

lemma escaped_ampersands: "escaped s \<Longrightarrow> ampersands_escaped s"
  by (induction s) (simp_all split: if_splits)

lemma ampersands_escaped_html_escape: "ampersands_escaped (html_escape s)"
  by (rule escaped_ampersands) (rule escaped_html_escape)

lemma no_ampersand: "CHR ''&'' \<notin> set s \<Longrightarrow> ampersands_escaped s"
  by (induction s) auto

lemma digit_cases: "digit d \<in> set ''0123456789''"
  unfolding digit_def by (rule nth_mem) simp

lemma digit_no_ampersand: "digit d \<noteq> CHR ''&''"
  using digit_cases [of d] by auto

lemma str_nat_no_ampersand: "CHR ''&'' \<notin> set (str_nat n)"
proof (induction n rule: str_nat.induct)
  case (1 n)
  show ?case
  proof (cases "n < 10")
    case True
    then show ?thesis using digit_no_ampersand [of n] by (subst str_nat.simps) auto
  next
    case False
    with 1 show ?thesis using digit_no_ampersand [of "n mod 10"]
      by (subst str_nat.simps) auto
  qed
qed

lemma ampersands_escaped_str_int: "ampersands_escaped (str_int i)"
  by (rule no_ampersand) (simp add: str_int_def str_nat_no_ampersand)

lemma ampersands_escaped_format_2f: "ampersands_escaped (format_2f x)"
  by (rule no_ampersand)
    (simp add: format_2f_def Let_def str_nat_no_ampersand digit_no_ampersand [symmetric])

lemma ampersands_escaped_join:
  assumes "\<And>x. x \<in> set xs \<Longrightarrow> ampersands_escaped x" "ampersands_escaped sep"
  shows "ampersands_escaped (join sep xs)"
  using assms by (induction sep xs rule: join.induct) (simp_all add: ampersands_escaped_append)

lemma ampersands_escaped_rows:
  "ampersands_escaped (type_row x)" "ampersands_escaped (id_row y)"
  "ampersands_escaped (unknown_top_level_row z)" "ampersands_escaped (unknown_vst_row z)"
  by (simp_all add: type_row_def id_row_def unknown_top_level_row_def unknown_vst_row_def
      ampersands_escaped_append ampersands_escaped_html_escape ampersands_escaped_str_int
      split: prod.split del: append.simps)

lemma ampersands_escaped_render:
  "ampersands_escaped (render_type_rows t1)" "ampersands_escaped (render_id_rows t2)"
  "ampersands_escaped (render_unknown_top_level_rows t3)"
  "ampersands_escaped (render_unknown_vst_rows t3)"
proof -
  have nl: "ampersands_escaped ''\<newline>''" by simp
  have j: "ampersands_escaped (join ''\<newline>'' (map f xs))"
    if "\<And>x. ampersands_escaped (f x)" for f :: "'a \<Rightarrow> string" and xs
    by (rule ampersands_escaped_join [OF _ nl]) (auto simp: that)
  have ph: "ampersands_escaped ''<tr><td colspan='2'>No events</td></tr>''"
    "ampersands_escaped ''<tr><td colspan='4'>No events</td></tr>''"
    "ampersands_escaped ''<tr><td colspan='2'>None</td></tr>''"
    by simp_all
  show "ampersands_escaped (render_type_rows t1)"
    unfolding render_type_rows_def Let_def
    by (simp only: ph j [of type_row, OF ampersands_escaped_rows(1)] if_split) simp
  show "ampersands_escaped (render_id_rows t2)"
    unfolding render_id_rows_def Let_def
    by (simp only: ph j [of id_row, OF ampersands_escaped_rows(2)] if_split) simp
  show "ampersands_escaped (render_unknown_top_level_rows t3)"
    unfolding render_unknown_top_level_rows_def Let_def
    by (simp only: ph j [of unknown_top_level_row, OF ampersands_escaped_rows(3)] if_split)
      simp
  show "ampersands_escaped (render_unknown_vst_rows t3)"
    unfolding render_unknown_vst_rows_def Let_def
    by (simp only: ph j [of unknown_vst_row, OF ampersands_escaped_rows(4)] if_split) simp
qed

lemma ampersands_escaped_style: "ampersands_escaped report_style"
  unfolding report_style_def
  by (intro ampersands_escaped_append) simp_all

lemma ampersands_escaped_template:
  assumes "ampersands_escaped r1" "ampersands_escaped r2" "ampersands_escaped r3"
    "ampersands_escaped r4"
  shows "ampersands_escaped (report_template path t p pp un up vs n r1 r2 r3 r4)"
  unfolding report_template_def
  by (intro ampersands_escaped_append assms ampersands_escaped_html_escape
      ampersands_escaped_str_int ampersands_escaped_format_2f ampersands_escaped_style)
    simp_all

lemma type_cell:
  "sublist (''<td>'' @ html_escape type_name @ ''</td>'') (type_row (type_name, count))"
  unfolding type_row_def prod.case
  by (rule sublist_here3 | rule sublist_skip)+

lemma id_cells:
  "sublist
     (''<td>'' @ html_escape event_name @ ''</td>'' @
      ''<td>'' @ html_escape event_type @ ''</td>'')
     (id_row ((event_id, event_name, event_type), count))"
  unfolding id_row_def prod.case
  by (rule sublist_here6 | rule sublist_skip)+

lemma sublist_join: "x \<in> set xs \<Longrightarrow> sublist (f x) (join sep (map f xs))"
proof (induction xs)
  case Nil
  then show ?case by simp
next
  case (Cons y ys)
  show ?case
  proof (cases ys)
    case Nil
    with Cons.prems show ?thesis by simp
  next
    case (Cons z zs)
    show ?thesis
    proof (cases "x = y")
      case True
      then show ?thesis unfolding Cons by simp
    next
      case False
      with Cons.prems have "x \<in> set ys" by simp
      then have "sublist (f x) (join sep (map f ys))" by (rule Cons.IH)
      then have "sublist (f x) (f y @ sep @ join sep (map f ys))"
        by (intro sublist_skip)
      then show ?thesis unfolding Cons by simp
    qed
  qed
qed

lemma row_in_render:
  "x \<in> set table \<Longrightarrow> sublist (type_row x) (render_type_rows table)"
  "y \<in> set table' \<Longrightarrow> sublist (id_row y) (render_id_rows table')"
proof -
  assume x: "x \<in> set table"
  then have "table \<noteq> []" by auto
  then have "render_type_rows table = join ''\<newline>'' (map type_row table)"
    by (rule render_rows_nonempty(1))
  with sublist_join [OF x, of type_row] show "sublist (type_row x) (render_type_rows table)"
    by (simp only:)
next
  assume y: "y \<in> set table'"
  then have "table' \<noteq> []" by auto
  then have "render_id_rows table' = join ''\<newline>'' (map id_row table')"
    by (rule render_rows_nonempty(2))
  with sublist_join [OF y, of id_row] show "sublist (id_row y) (render_id_rows table')"
    by (simp only:)
qed

lemma rows_in_template:
  "sublist r1 (report_template path t p pp un up vs n r1 r2 r3 r4)"
  "sublist r2 (report_template path t p pp un up vs n r1 r2 r3 r4)"
  unfolding report_template_def
  by (rule sublist_append_rightI | rule sublist_skip)+

lemma type_cell_in_document:
  assumes "(type_name, count) \<in> set table"
  shows "sublist (''<td>'' @ html_escape type_name @ ''</td>'')
     (report_template path t p pp un up vs n (render_type_rows table) r2 r3 r4)"
  by (rule sublist_trans [OF type_cell sublist_trans [OF row_in_render(1) [OF assms]
        rows_in_template(1)]])

lemma id_cells_in_document:
  assumes "((event_id, event_name, event_type), count) \<in> set table"
  shows "sublist
     (''<td>'' @ html_escape event_name @ ''</td>'' @
      ''<td>'' @ html_escape event_type @ ''</td>'')
     (report_template path t p pp un up vs n r1 (render_id_rows table) r3 r4)"
  by (rule sublist_trans [OF id_cells sublist_trans [OF row_in_render(2) [OF assms]
        rows_in_template(2)]])

text \<open>
  Claim C6. Whatever text a class name, an id name or the file path holds,
  \<open>html.escape\<close> turns it into a text without \<open><\<close>, \<open>>\<close> and quotes, in which
  every ampersand starts a character reference. In the rendered document the file path
  stands in this escaped form in the \<open>File:\<close> line, and the class name and the id name
  of every row shown stand in this form in their cells. These texts enter the document
  nowhere else: every ampersand of the whole document starts a character reference,
  and the markup characters of the whole document are those of the document rendered
  with every such text replaced by the empty text. So no character of a name or of the
  path ever stands raw in the document.
\<close>

theorem markup_independent_of_text:
  \<open>escaped (html_escape s)
   \<and> markup_chars (html_escape s) = []
   \<and> (\<exists>doc p u. report_of_events path events top_n = Inr doc
        \<and> parsed_pct events = Inr p \<and> unknown_pct events = Inr u
        \<and> markup_chars doc =
            markup_chars
              (report_template [] (total_events events) (parsed_events events) p
                 (unknown_top_level events) u (unknown_vst_subevents events) top_n
                 (render_type_rows
                    (map (\<lambda>(type_name, count). ([], count))
                       (most_common top_n (event_type_counts events))))
                 (render_id_rows
                    (map (\<lambda>((event_id, event_name, event_type), count).
                            ((event_id, [], []), count))
                       (most_common top_n (top_level_id_counts events))))
                 (unknown_top_level_rows events top_n) (unknown_vst_rows events top_n))
        \<and> ampersands_escaped doc
        \<and> sublist (''<p><strong>File:</strong> '' @ html_escape path @ ''</p>\<newline>'') doc
        \<and> (\<forall>(type_name, count) \<in> set (most_common top_n (event_type_counts events)).
              sublist (''<td>'' @ html_escape type_name @ ''</td>'') doc)
        \<and> (\<forall>((event_id, event_name, event_type), count)
                \<in> set (most_common top_n (top_level_id_counts events)).
              sublist
                (''<td>'' @ html_escape event_name @ ''</td>'' @
                 ''<td>'' @ html_escape event_type @ ''</td>'') doc))\<close>
proof -
  obtain p u where pu: "parsed_pct events = Inr p" "unknown_pct events = Inr u"
    by (rule percentages_defined)
  define doc where "doc =
    report_template path (total_events events) (parsed_events events) p
      (unknown_top_level events) u (unknown_vst_subevents events) top_n
      (render_type_rows (most_common top_n (event_type_counts events)))
      (render_id_rows (most_common top_n (top_level_id_counts events)))
      (unknown_top_level_rows events top_n) (unknown_vst_rows events top_n)"
  have r: "report_of_events path events top_n = Inr doc"
    unfolding doc_def using report_of_events_Inr [OF pu, of path top_n]
    by (simp only: type_rows_def id_rows_def)
  have m: "markup_chars doc =
     markup_chars
       (report_template [] (total_events events) (parsed_events events) p
          (unknown_top_level events) u (unknown_vst_subevents events) top_n
          (render_type_rows
             (map (\<lambda>(type_name, count). ([], count))
                (most_common top_n (event_type_counts events))))
          (render_id_rows
             (map (\<lambda>((event_id, event_name, event_type), count).
                     ((event_id, [], []), count))
                (most_common top_n (top_level_id_counts events))))
          (unknown_top_level_rows events top_n) (unknown_vst_rows events top_n))"
    unfolding doc_def
    by (rule markup_chars_template [OF markup_chars_render_type_rows markup_chars_render_id_rows])
  have a: "ampersands_escaped doc"
    unfolding doc_def unknown_top_level_rows_def unknown_vst_rows_def
    by (rule ampersands_escaped_template [OF ampersands_escaped_render])
  have f: \<open>sublist (''<p><strong>File:</strong> '' @ html_escape path @ ''</p>\<newline>'') doc\<close>
    unfolding doc_def by (rule file_line)
  have t: "\<forall>(type_name, count) \<in> set (most_common top_n (event_type_counts events)).
      sublist (''<td>'' @ html_escape type_name @ ''</td>'') doc"
    unfolding doc_def by (auto intro: type_cell_in_document simp del: append.simps)
  have i: "\<forall>((event_id, event_name, event_type), count)
                \<in> set (most_common top_n (top_level_id_counts events)).
      sublist
        (''<td>'' @ html_escape event_name @ ''</td>'' @
         ''<td>'' @ html_escape event_type @ ''</td>'') doc"
    unfolding doc_def by (auto intro: id_cells_in_document simp del: append.simps)
  from r pu m a f t i escaped_html_escape [of s] markup_chars_html_escape [of s]
  show ?thesis by blast
qed

text \<open>
  Claim C6 at a file path with an ampersand and an event whose names hold \<open><\<close>,
  \<open>>\<close>, \<open>&\<close> and a double quote.
\<close>

theorem markup_independent_of_text_witness:
  \<open>html_escape ''<b>&"'' = ''&lt;b&gt;&amp;&quot;''
   \<and> escaped (html_escape ''<b>&"'')
   \<and> markup_chars (html_escape ''<b>&"'') = []
   \<and> type_rows [hostile_event] 25 = ''<tr><td>A&amp;B&quot;</td><td>1</td></tr>''
   \<and> id_rows [hostile_event] 25 =
       ''<tr><td>7</td><td>&lt;script&gt;</td><td>A&amp;B&quot;</td><td>1</td></tr>''
   \<and> (\<exists>doc. report_of_events ''/work/R&D.flp'' [hostile_event] 25 = Inr doc
        \<and> ampersands_escaped doc
        \<and> sublist (''<p><strong>File:</strong> '' @ ''/work/R&amp;D.flp'' @ ''</p>\<newline>'') doc
        \<and> sublist (''<td>'' @ ''A&amp;B&quot;'' @ ''</td>'') doc
        \<and> sublist
             (''<td>'' @ ''&lt;script&gt;'' @ ''</td>'' @
              ''<td>'' @ ''A&amp;B&quot;'' @ ''</td>'') doc)\<close>
proof -
  note t = markup_independent_of_text [of \<open>''<b>&"''\<close> \<open>''/work/R&D.flp''\<close>
      "[hostile_event]" 25]
  have e: \<open>html_escape ''<b>&"'' = ''&lt;b&gt;&amp;&quot;''\<close>
    \<open>html_escape ''/work/R&D.flp'' = ''/work/R&amp;D.flp''\<close>
    \<open>html_escape ''A&B"'' = ''A&amp;B&quot;''\<close>
    \<open>html_escape ''<script>'' = ''&lt;script&gt;''\<close>
    by (simp_all add: html_escape_chars escape_char_def)
  have r: \<open>type_rows [hostile_event] 25 = ''<tr><td>A&amp;B&quot;</td><td>1</td></tr>''\<close>
    by (simp add: type_rows_def render_type_rows_def type_row_def most_common_eval
        event_type_counts_def Counter_def hostile_event_def html_escape_chars escape_char_def
        str_int_def str_nat.simps digit_def)
  have i: \<open>id_rows [hostile_event] 25 =
       ''<tr><td>7</td><td>&lt;script&gt;</td><td>A&amp;B&quot;</td><td>1</td></tr>''\<close>
    by (simp add: id_rows_def render_id_rows_def id_row_def most_common_eval
        top_level_id_counts_def Counter_def hostile_event_def event_id_name_def
        html_escape_chars escape_char_def str_int_def str_nat.simps digit_def)
  have c: \<open>most_common 25 (event_type_counts [hostile_event]) = [(''A&B"'', 1)]\<close>
    \<open>most_common 25 (top_level_id_counts [hostile_event]) =
       [((7, ''<script>'', ''A&B"''), 1)]\<close>
    by (simp_all add: most_common_eval event_type_counts_def top_level_id_counts_def
        Counter_def hostile_event_def event_id_name_def)
  from t obtain doc where d: \<open>report_of_events ''/work/R&D.flp'' [hostile_event] 25 = Inr doc\<close>
    \<open>ampersands_escaped doc\<close>
    \<open>sublist (''<p><strong>File:</strong> '' @ html_escape ''/work/R&D.flp'' @
       ''</p>\<newline>'') doc\<close>
    \<open>\<forall>(type_name, count) \<in> set (most_common 25 (event_type_counts [hostile_event])).
       sublist (''<td>'' @ html_escape type_name @ ''</td>'') doc\<close>
    \<open>\<forall>((event_id, event_name, event_type), count)
          \<in> set (most_common 25 (top_level_id_counts [hostile_event])).
       sublist
         (''<td>'' @ html_escape event_name @ ''</td>'' @
          ''<td>'' @ html_escape event_type @ ''</td>'') doc\<close>
    by blast
  have f: \<open>sublist (''<p><strong>File:</strong> '' @ ''/work/R&amp;D.flp'' @ ''</p>\<newline>'') doc\<close>
    using d(3) by (simp only: e)
  have g: \<open>sublist (''<td>'' @ ''A&amp;B&quot;'' @ ''</td>'') doc\<close>
    using d(4) by (simp only: c list.set ball_simps prod.case e)
  have h: \<open>sublist
             (''<td>'' @ ''&lt;script&gt;'' @ ''</td>'' @
              ''<td>'' @ ''A&amp;B&quot;'' @ ''</td>'') doc\<close>
    using d(5) by (simp only: c list.set ball_simps prod.case e)
  from t e(1) r i d(1,2) f g h show ?thesis by blast
qed

subsection \<open>Metric cards\<close>

text \<open>
  Claim C8. In every rendered document the card of the unknown top-level events has
  the style \<open>bad\<close> when their count is not zero and \<open>ok\<close> when it is zero, and the
  card of the unknown VST sub-events has the style \<open>warn\<close> when their count is not
  zero and \<open>ok\<close> when it is zero. The three styles are different names. The count and
  the percentage printed in a card are those of the event sequence, whatever the style.
\<close>

theorem metric_card_styles:
  \<open>\<exists>doc u. report_of_events path events top_n = Inr doc \<and> unknown_pct events = Inr u
     \<and> sublist
          (''    <div>Unknown top-level events</div>\<newline>'' @
           ''    <div class="metric '' @
             (if length (unknown_top_level events) \<noteq> 0 then ''bad'' else ''ok'') @ ''">'' @
             str_int (int (length (unknown_top_level events))) @ '' ('' @ format_2f u @
             ''%)</div>\<newline>'') doc
     \<and> sublist
          (''    <div>Unknown VST sub-events</div>\<newline>'' @
           ''    <div class="metric '' @
             (if length (unknown_vst_subevents events) \<noteq> 0 then ''warn'' else ''ok'') @
             ''">'' @ str_int (int (length (unknown_vst_subevents events))) @
             ''</div>\<newline>'') doc
     \<and> ''bad'' \<noteq> ''ok'' \<and> ''warn'' \<noteq> ''ok'' \<and> ''warn'' \<noteq> ''bad''\<close>
proof -
  obtain p u where pu: "parsed_pct events = Inr p" "unknown_pct events = Inr u"
    by (rule percentages_defined)
  note doc = report_of_events_Inr [OF pu, of path top_n]
  have top: \<open>sublist
      (''    <div>Unknown top-level events</div>\<newline>'' @
       ''    <div class="metric '' @
         (if length (unknown_top_level events) \<noteq> 0 then ''bad'' else ''ok'') @ ''">'' @
         str_int (int (length (unknown_top_level events))) @ '' ('' @ format_2f u @
         ''%)</div>\<newline>'')
      (report_template path (total_events events) (parsed_events events) p
         (unknown_top_level events) u (unknown_vst_subevents events) top_n
         (type_rows events top_n) (id_rows events top_n)
         (unknown_top_level_rows events top_n) (unknown_vst_rows events top_n))\<close>
    by (simp only: length_0_conv) (rule top_level_card)
  have vst: \<open>sublist
      (''    <div>Unknown VST sub-events</div>\<newline>'' @
       ''    <div class="metric '' @
         (if length (unknown_vst_subevents events) \<noteq> 0 then ''warn'' else ''ok'') @
         ''">'' @ str_int (int (length (unknown_vst_subevents events))) @
         ''</div>\<newline>'')
      (report_template path (total_events events) (parsed_events events) p
         (unknown_top_level events) u (unknown_vst_subevents events) top_n
         (type_rows events top_n) (id_rows events top_n)
         (unknown_top_level_rows events top_n) (unknown_vst_rows events top_n))\<close>
    by (simp only: length_0_conv) (rule vst_card)
  have names: "''bad'' \<noteq> ''ok''" "''warn'' \<noteq> ''ok''" "''warn'' \<noteq> ''bad''"
    by simp_all
  from doc pu(2) top vst names show ?thesis by blast
qed

text \<open>
  Claim C8 at \<open>sample_events\<close> (two unknown events, three unknown sub-events) and at
  a single known event (none of either).
\<close>

theorem metric_card_styles_witness:
  \<open>(\<exists>doc u. report_of_events ''/work/song.flp'' sample_events 25 = Inr doc
       \<and> unknown_pct sample_events = Inr u
       \<and> sublist
            (''    <div>Unknown top-level events</div>\<newline>'' @
             ''    <div class="metric bad">2 ('' @ format_2f u @ ''%)</div>\<newline>'') doc
       \<and> sublist
            (''    <div>Unknown VST sub-events</div>\<newline>'' @
             ''    <div class="metric warn">3</div>\<newline>'') doc)
   \<and> (\<exists>doc u. report_of_events ''/work/song.flp'' [known_event] 25 = Inr doc
       \<and> unknown_pct [known_event] = Inr u
       \<and> sublist
            (''    <div>Unknown top-level events</div>\<newline>'' @
             ''    <div class="metric ok">0 ('' @ format_2f u @ ''%)</div>\<newline>'') doc
       \<and> sublist
            (''    <div>Unknown VST sub-events</div>\<newline>'' @
             ''    <div class="metric ok">0</div>\<newline>'') doc)\<close>
proof -
  have n: "str_int 0 = ''0''" "str_int 2 = ''2''" "str_int 3 = ''3''"
    by (simp_all add: str_int_def str_nat.simps digit_def)
  have k: "unknown_top_level [known_event] = []" "unknown_vst_subevents [known_event] = []"
    by (simp_all add: unknown_top_level_def unknown_vst_subevents_def is_unknown_def
        known_event_def)
  have s: "length (unknown_top_level sample_events) = 2"
    "length (unknown_vst_subevents sample_events) = 3"
    by (simp_all add: sample_totals sample_vst_subevents)
  show ?thesis
    using metric_card_styles [of "''/work/song.flp''" sample_events 25]
      metric_card_styles [of "''/work/song.flp''" "[known_event]" 25]
    by (simp add: n k s)
qed

subsection \<open>The missing library and the output file\<close>

lemma import_pyflp_missing:
  assumes "import_result env sp = Some (ModuleNotFoundError n1)"
    and "import_result env (if repo_root env \<notin> set sp then repo_root env # sp else sp)
           = Some (ModuleNotFoundError n2)"
  shows "import_pyflp env sp =
     (if repo_root env \<notin> set sp then repo_root env # sp else sp,
      Inl (SystemExit (import_error_message n2)))"
  using assms by (simp add: import_pyflp_def Let_def)

lemma build_report_missing:
  assumes "import_result env sp = Some (ModuleNotFoundError n1)"
    and "import_result env (if repo_root env \<notin> set sp then repo_root env # sp else sp)
           = Some (ModuleNotFoundError n2)"
  shows "snd (build_report env sp flp_path top_n) = Inl (SystemExit (import_error_message n2))"
  by (simp add: build_report_def import_pyflp_missing [OF assms])

lemma main_failure:
  assumes "snd (build_report env (sys_path w) (arg_flp_file a) (arg_top a)) = Inl e"
  shows "snd (main env a w) = Inl e" "files (fst (main env a w)) = files w"
    "stdout (fst (main env a w)) = stdout w"
  using assms
  by (cases "build_report env (sys_path w) (arg_flp_file a) (arg_top a)"; simp add: main_def)+

lemma main_after_build_report:
  assumes "snd (build_report env (sys_path w) (arg_flp_file a) (arg_top a)) = Inr report_html"
  shows "write_text env (arg_output a) report_html = Written \<Longrightarrow>
           snd (main env a w) = Inr 0
           \<and> files (fst (main env a w)) = (files w)(arg_output a \<mapsto> report_html)"
    and "write_text env (arg_output a) report_html = OpenFailed e \<Longrightarrow>
           snd (main env a w) = Inl e \<and> files (fst (main env a w)) = files w"
    and "write_text env (arg_output a) report_html = WriteFailed e left \<Longrightarrow>
           snd (main env a w) = Inl e
           \<and> files (fst (main env a w)) = (files w)(arg_output a \<mapsto> left)"
  using assms
  by (cases "build_report env (sys_path w) (arg_flp_file a) (arg_top a)"; simp add: main_def)+

lemma main_files_changed:
  assumes "files (fst (main env a w)) \<noteq> files w"
  shows "\<exists>report_html.
      snd (build_report env (sys_path w) (arg_flp_file a) (arg_top a)) = Inr report_html
      \<and> (\<exists>content. files (fst (main env a w)) = (files w)(arg_output a \<mapsto> content))"
proof (cases "snd (build_report env (sys_path w) (arg_flp_file a) (arg_top a))")
  case (Inl e)
  with assms main_failure(2) [OF Inl] show ?thesis by simp
next
  case (Inr report_html)
  note m = main_after_build_report [OF Inr]
  show ?thesis
  proof (cases "write_text env (arg_output a) report_html")
    case Written
    with m(1) Inr show ?thesis by blast
  next
    case (OpenFailed e)
    with m(2) assms show ?thesis by blast
  next
    case (WriteFailed e left)
    with m(3) Inr show ?thesis by blast
  qed
qed

lemma main_returned:
  assumes "snd (main env a w) = Inr code"
  shows "code = 0 \<and> (\<exists>report_html.
      snd (build_report env (sys_path w) (arg_flp_file a) (arg_top a)) = Inr report_html
      \<and> files (fst (main env a w)) = (files w)(arg_output a \<mapsto> report_html))"
proof (cases "snd (build_report env (sys_path w) (arg_flp_file a) (arg_top a))")
  case (Inl e)
  with assms main_failure(1) [OF Inl] show ?thesis by simp
next
  case (Inr report_html)
  note m = main_after_build_report [OF Inr]
  show ?thesis
  proof (cases "write_text env (arg_output a) report_html")
    case Written
    with m(1) Inr assms show ?thesis by simp
  next
    case (OpenFailed e)
    with m(2) assms show ?thesis by simp
  next
    case (WriteFailed e left)
    with m(3) assms show ?thesis by simp
  qed
qed

lemma instructions_in_message:
  "sublist ''Install project dependencies and rerun, for example:\<newline>''
     (import_error_message name)"
  unfolding import_error_message_def Let_def
  by (rule sublist_append_rightI | rule sublist_skip)+

text \<open>
  Claim C9. When both import attempts end in \<open>ModuleNotFoundError\<close>, \<open>main\<close> ends
  with a \<open>SystemExit\<close> whose message holds the installation instructions, the exit
  status is not zero, and neither the files nor the standard output change. Whenever
  \<open>build_report\<close> raises, \<open>main\<close> raises the same and no file changes. A file changes
  only when \<open>build_report\<close> has returned the document, and then only the output file;
  and when \<open>main\<close> returns, its value is 0 and the output file holds the document that
  \<open>build_report\<close> returned.
\<close>

theorem missing_library_no_output:
  "(import_result env (sys_path w) = Some (ModuleNotFoundError n1)
      \<and> import_result env (if repo_root env \<notin> set (sys_path w) then repo_root env # sys_path w
                             else sys_path w) = Some (ModuleNotFoundError n2)
    \<longrightarrow> snd (main env a w) = Inl (SystemExit (import_error_message n2))
        \<and> sublist ''Install project dependencies and rerun, for example:\<newline>''
             (import_error_message n2)
        \<and> exit_status (snd (main env a w)) \<noteq> 0
        \<and> files (fst (main env a w)) = files w
        \<and> stdout (fst (main env a w)) = stdout w)
   \<and> (\<forall>e. snd (build_report env (sys_path w) (arg_flp_file a) (arg_top a)) = Inl e
        \<longrightarrow> snd (main env a w) = Inl e \<and> exit_status (snd (main env a w)) \<noteq> 0
            \<and> files (fst (main env a w)) = files w)
   \<and> (files (fst (main env a w)) \<noteq> files w
        \<longrightarrow> (\<exists>report_html.
              snd (build_report env (sys_path w) (arg_flp_file a) (arg_top a)) = Inr report_html
              \<and> (\<exists>content. files (fst (main env a w))
                    = (files w)(arg_output a \<mapsto> content))))
   \<and> (\<forall>code. snd (main env a w) = Inr code
        \<longrightarrow> code = 0
            \<and> (\<exists>report_html.
                  snd (build_report env (sys_path w) (arg_flp_file a) (arg_top a))
                    = Inr report_html
                  \<and> files (fst (main env a w)) = (files w)(arg_output a \<mapsto> report_html)))"
proof (intro conjI impI allI)
  assume m: "import_result env (sys_path w) = Some (ModuleNotFoundError n1)
      \<and> import_result env (if repo_root env \<notin> set (sys_path w) then repo_root env # sys_path w
                             else sys_path w) = Some (ModuleNotFoundError n2)"
  then have b: "snd (build_report env (sys_path w) (arg_flp_file a) (arg_top a))
      = Inl (SystemExit (import_error_message n2))"
    by (intro build_report_missing) (erule conjunct1, erule conjunct2)
  note f = main_failure [OF b]
  show "snd (main env a w) = Inl (SystemExit (import_error_message n2))" by (rule f(1))
  show "exit_status (snd (main env a w)) \<noteq> 0" by (simp add: f(1) exit_status_def)
  show "files (fst (main env a w)) = files w" by (rule f(2))
  show "stdout (fst (main env a w)) = stdout w" by (rule f(3))
  show "sublist ''Install project dependencies and rerun, for example:\<newline>''
      (import_error_message n2)"
    by (rule instructions_in_message)
next
  fix e
  assume b: "snd (build_report env (sys_path w) (arg_flp_file a) (arg_top a)) = Inl e"
  note f = main_failure [OF b]
  show "snd (main env a w) = Inl e" by (rule f(1))
  show "exit_status (snd (main env a w)) \<noteq> 0" by (simp add: f(1) exit_status_def)
  show "files (fst (main env a w)) = files w" by (rule f(2))
next
  assume "files (fst (main env a w)) \<noteq> files w"
  then show "\<exists>report_html.
      snd (build_report env (sys_path w) (arg_flp_file a) (arg_top a)) = Inr report_html
      \<and> (\<exists>content. files (fst (main env a w)) = (files w)(arg_output a \<mapsto> content))"
    by (rule main_files_changed)
next
  fix code
  assume r: "snd (main env a w) = Inr code"
  from main_returned [OF r] show "code = 0" by (rule conjunct1)
  from main_returned [OF r] show "\<exists>report_html.
      snd (build_report env (sys_path w) (arg_flp_file a) (arg_top a)) = Inr report_html
      \<and> files (fst (main env a w)) = (files w)(arg_output a \<mapsto> report_html)"
    by (rule conjunct2)
qed

lemma build_report_sample:
  "\<exists>doc. build_report env_installed [] ''song.flp'' 25 = ([], Inr doc)
     \<and> build_report env_unencodable [] ''song.flp'' 25 = ([], Inr doc)"
proof -
  obtain p u where pu: "parsed_pct sample_events = Inr p" "unknown_pct sample_events = Inr u"
    by (rule percentages_defined)
  show ?thesis
    by (simp add: build_report_def import_pyflp_def env_installed_def env_unencodable_def
        report_of_events_Inr [OF pu])
qed

text \<open>
  Claim C9 in an environment without pyflp, in one where it is installed, and in one
  where the document cannot be encoded: there the output file is left empty and the
  exit status is 1.
\<close>

theorem missing_library_no_output_witness:
  "import_result env_missing (sys_path empty_world) = Some (ModuleNotFoundError (Some ''pyflp''))
   \<and> import_result env_missing [''/repo''] = Some (ModuleNotFoundError (Some ''pyflp''))
   \<and> snd (main env_missing sample_args empty_world)
       = Inl (SystemExit (import_error_message (Some ''pyflp'')))
   \<and> exit_status (snd (main env_missing sample_args empty_world)) = 1
   \<and> files (fst (main env_missing sample_args empty_world)) = Map.empty
   \<and> files (fst (main env_installed sample_args empty_world)) \<noteq> files empty_world
   \<and> snd (main env_installed sample_args empty_world) = Inr 0
   \<and> (\<exists>report_html.
         snd (build_report env_installed [] ''song.flp'' 25) = Inr report_html
         \<and> files (fst (main env_installed sample_args empty_world))
             = [''parse-report.html'' \<mapsto> report_html])
   \<and> files (fst (main env_unencodable sample_args empty_world)) = [''parse-report.html'' \<mapsto> []]
   \<and> files (fst (main env_unencodable sample_args empty_world)) \<noteq> files empty_world
   \<and> exit_status (snd (main env_unencodable sample_args empty_world)) = 1
   \<and> (\<exists>report_html.
         snd (build_report env_unencodable [] ''song.flp'' 25) = Inr report_html)"
proof -
  have i: "import_result env_missing (sys_path empty_world)
      = Some (ModuleNotFoundError (Some ''pyflp''))"
    "import_result env_missing [''/repo''] = Some (ModuleNotFoundError (Some ''pyflp''))"
    by (simp_all add: env_missing_def)
  have r: "repo_root env_missing = ''/repo''" "sys_path empty_world = []"
    "files empty_world = Map.empty"
    by (simp_all add: env_missing_def empty_world_def)
  note t1 = missing_library_no_output [of env_missing empty_world "Some ''pyflp''"
      "Some ''pyflp''" sample_args, THEN conjunct1]
  have a: "snd (main env_missing sample_args empty_world)
       = Inl (SystemExit (import_error_message (Some ''pyflp'')))"
    "exit_status (snd (main env_missing sample_args empty_world)) = 1"
    "files (fst (main env_missing sample_args empty_world)) = Map.empty"
    using t1 i by (simp_all add: r exit_status_def)
  obtain doc where d: "build_report env_installed [] ''song.flp'' 25 = ([], Inr doc)"
    "build_report env_unencodable [] ''song.flp'' 25 = ([], Inr doc)"
    using build_report_sample by blast
  have e: "write_text env_installed ''parse-report.html'' doc = Written"
    "write_text env_unencodable ''parse-report.html'' doc = WriteFailed UnicodeEncodeError []"
    by (simp_all add: env_installed_def env_unencodable_def)
  have c: "files (fst (main env_installed sample_args empty_world)) \<noteq> files empty_world"
    "snd (main env_installed sample_args empty_world) = Inr 0"
    by (simp_all add: main_def sample_args_def empty_world_def d e)
  note t2 = missing_library_no_output [of env_installed empty_world _ _ sample_args,
      THEN conjunct2, THEN conjunct2, THEN conjunct2, rule_format, OF c(2)]
  have b: "\<exists>report_html.
         snd (build_report env_installed [] ''song.flp'' 25) = Inr report_html
         \<and> files (fst (main env_installed sample_args empty_world))
             = [''parse-report.html'' \<mapsto> report_html]"
    using t2 by (simp add: sample_args_def empty_world_def)
  have u: "files (fst (main env_unencodable sample_args empty_world))
      = [''parse-report.html'' \<mapsto> []]"
    "files (fst (main env_unencodable sample_args empty_world)) \<noteq> files empty_world"
    "exit_status (snd (main env_unencodable sample_args empty_world)) = 1"
    by (simp_all add: main_def sample_args_def empty_world_def d e exit_status_def)
  note t3 = missing_library_no_output [of env_unencodable empty_world _ _ sample_args,
      THEN conjunct2, THEN conjunct2, THEN conjunct1, THEN mp, OF u(2)]
  have v: "\<exists>report_html.
         snd (build_report env_unencodable [] ''song.flp'' 25) = Inr report_html"
    using t3 by (auto simp: sample_args_def empty_world_def)
  from i a c b u v show ?thesis by blast
qed

end
